theory Spec2Isabelle
  imports Complex_Main
begin

section \<open>Time\<close>

text \<open>
  A Python \<open>datetime\<close> is the count of microseconds since \<open>datetime.min\<close>, the first instant
  of year 1, and a \<open>timedelta\<close> a difference of two such counts (the naive/aware distinction
  is outside the model). Every call of \<open>datetime.utcnow()\<close> in the source is a parameter of
  the function that makes it.
\<close>

type_synonym datetime = int
type_synonym timedelta = int

datatype py_error = TypeError | OverflowError | RuntimeError | ValueError | KeyError

definition timedelta_days :: "int \<Rightarrow> timedelta" where
  "timedelta_days d = d * 86400000000"

definition timedelta_minutes :: "int \<Rightarrow> timedelta" where
  "timedelta_minutes m = m * 60000000"

text \<open>The \<open>.days\<close> attribute of a normalised \<open>timedelta\<close>: floor division by one day.\<close>

definition dot_days :: "timedelta \<Rightarrow> int" where
  "dot_days t = t div 86400000000"

text \<open>
  \<open>datetime.max\<close> is the last microsecond of year 9999, day 3652059 of the calendar.
  \<open>timedelta(days=d)\<close> raises \<open>OverflowError\<close> when \<open>d\<close> exceeds 999999999 in magnitude, and
  adding a \<open>timedelta\<close> to a \<open>datetime\<close> raises it when the sum leaves the calendar. The
  renewals, which add caller-supplied months or a billing cycle to a stored date, go through
  these checks; a clock reading moved by the few minutes or days of a sweep stays in range
  and is a plain sum.
\<close>

definition datetime_max :: datetime where
  "datetime_max = 315537897599999999"

definition timedelta_of_days :: "int \<Rightarrow> py_error + timedelta" where
  "timedelta_of_days d =
     (if - 999999999 \<le> d \<and> d \<le> 999999999 then Inr (timedelta_days d) else Inl OverflowError)"

definition datetime_add :: "datetime \<Rightarrow> timedelta \<Rightarrow> py_error + datetime" where
  "datetime_add t d = (if 0 \<le> t + d \<and> t + d \<le> datetime_max then Inr (t + d) else Inl OverflowError)"

section \<open>Data model\<close>

subsection \<open>models/maquina.py\<close>

datatype StatusMaquina = ONLINE | OFFLINE | MANUTENCAO | BLOQUEADA

record Maquina =
  maq_id :: int
  maq_cliente_id :: int
  maq_nome :: string
  identificador_unico :: string
  ultima_conexao :: "datetime option"
  maq_status :: StatusMaquina
  tempo_atividade :: int
  versao_app :: "string option"

record MaquinaMetricaBase =
  cpu_uso :: "real option"
  memoria_uso :: "real option"
  disco_uso :: "real option"
  temperatura :: "real option"
  rede_upload :: "real option"
  rede_download :: "real option"
  latencia :: "real option"
  processos_ativos :: "int option"

record MaquinaMetrica = MaquinaMetricaBase +
  metrica_maquina_id :: int

record HeartbeatRequest =
  hb_identificador_unico :: string
  hb_status :: StatusMaquina
  hb_metricas :: "MaquinaMetricaBase option"
  hb_versao_app :: "string option"

subsection \<open>models/licenca.py, models/cliente.py\<close>

text \<open>
  The records keep the columns the services read or write. Columns the database fills by
  itself (\<open>created_at\<close>, \<open>updated_at\<close>, \<open>data_bloqueio\<close>, the id of a row that is only inserted)
  and descriptive columns no service function looks at are left out; a status, counter or
  flag column always holds a value, as its column default and its request schema provide.
\<close>

datatype TipoLicenca = DEMONSTRACAO | TEMPORARIA | PERPETUA | ASSINATURA

datatype StatusLicenca = ATIVA | EXPIRADA | SUSPENSA | CANCELADA | PENDENTE

datatype CicloFaturamento = MENSAL | TRIMESTRAL | SEMESTRAL | ANUAL | BIANUAL

record Licenca =
  lic_id :: int
  lic_cliente_id :: int
  lic_maquina_id :: "int option"
  chave_licenca :: string
  lic_tipo :: TipoLicenca
  lic_status :: StatusLicenca
  data_ativacao :: "datetime option"
  data_expiracao :: "datetime option"
  data_renovacao :: "datetime option"
  limite_usos :: int
  usos_atuais :: int

record Assinatura =
  ass_id :: int
  ass_cliente_id :: int
  ass_licenca_id :: int
  plano :: string
  ciclo :: CicloFaturamento
  data_inicio :: datetime
  data_fim :: "datetime option"
  renovacao_automatica :: bool
  ass_status :: string

record Bloqueio =
  blq_cliente_id :: int
  blq_maquina_id :: "int option"
  blq_motivo :: string
  blq_tipo :: string
  blq_severidade :: string
  data_desbloqueio :: "datetime option"

record Cliente =
  cli_id :: int
  cli_email :: string
  cli_data_expiracao :: "datetime option"

subsection \<open>events/alertas.py\<close>

text \<open>
  Each \<open>enviar_alerta_*\<close> function sends one e-mail (whose failure it swallows) and creates
  one system alert; a call is recorded as one request in the alert log, with the \<open>tipo\<close> of
  the system alert and the id of the entity it is about.
\<close>

datatype alerta =
    Licenca_expirada int
  | Maquina_offline int
  | Atividade_suspeita int string
  | Pagamento_pendente int

subsection \<open>The session: tables and the alert log\<close>

record sistema =
  maquinas :: "Maquina list"
  metricas :: "MaquinaMetrica list"
  licencas :: "Licenca list"
  assinaturas :: "Assinatura list"
  clientes :: "Cliente list"
  bloqueios :: "Bloqueio list"
  alertas :: "alerta list"

text \<open>
  \<open>db.query(T).filter(P).first()\<close> is \<open>find P\<close> on the table; mutating the object it returned
  and committing rewrites that one row.
\<close>

fun atualiza_primeiro :: "('a \<Rightarrow> bool) \<Rightarrow> ('a \<Rightarrow> 'a) \<Rightarrow> 'a list \<Rightarrow> 'a list" where
  "atualiza_primeiro P f [] = []"
| "atualiza_primeiro P f (x # xs) = (if P x then f x # xs else x # atualiza_primeiro P f xs)"

section \<open>services/maquina_service.py\<close>

text \<open>
  Python truthiness of an optional float: \<open>x and x > 90\<close>. The alert texts are the source's
  without their accents.
\<close>

definition acima_de_90 :: "real option \<Rightarrow> bool" where
  "acima_de_90 x = (case x of None \<Rightarrow> False | Some v \<Rightarrow> v \<noteq> 0 \<and> v > 90)"

definition nova_metrica :: "int \<Rightarrow> MaquinaMetricaBase \<Rightarrow> MaquinaMetrica" where
  "nova_metrica mid mt =
     \<lparr> cpu_uso = cpu_uso mt, memoria_uso = memoria_uso mt, disco_uso = disco_uso mt,
       temperatura = temperatura mt, rede_upload = rede_upload mt,
       rede_download = rede_download mt, latencia = latencia mt,
       processos_ativos = processos_ativos mt, metrica_maquina_id = mid \<rparr>"

definition alertas_metricas :: "Maquina \<Rightarrow> MaquinaMetricaBase \<Rightarrow> alerta list" where
  "alertas_metricas maquina mt =
     (if acima_de_90 (cpu_uso mt) then [Atividade_suspeita (maq_id maquina) ''Uso de CPU muito alto''] else [])
     @ (if acima_de_90 (memoria_uso mt)
        then [Atividade_suspeita (maq_id maquina) ''Uso de memoria muito alto''] else [])"

definition heartbeat_atualiza :: "datetime \<Rightarrow> HeartbeatRequest \<Rightarrow> Maquina \<Rightarrow> Maquina" where
  "heartbeat_atualiza agora heartbeat maquina =
     (let status_anterior = maq_status maquina;
          m1 = maquina\<lparr> maq_status := hb_status heartbeat, ultima_conexao := Some agora \<rparr>;
          m2 = (case hb_versao_app heartbeat of
                  None \<Rightarrow> m1
                | Some v \<Rightarrow> if v \<noteq> [] then m1\<lparr> versao_app := Some v \<rparr> else m1)
      in if status_anterior = OFFLINE \<and> hb_status heartbeat = ONLINE
         then m2\<lparr> tempo_atividade := tempo_atividade m2 + 300 \<rparr> else m2)"

definition processar_heartbeat ::
  "datetime \<Rightarrow> HeartbeatRequest \<Rightarrow> sistema \<Rightarrow> Maquina option \<times> sistema" where
  "processar_heartbeat agora heartbeat s =
     (let alvo = (\<lambda>m. identificador_unico m = hb_identificador_unico heartbeat)
      in case find alvo (maquinas s) of
           None \<Rightarrow> (None, s)
         | Some maquina \<Rightarrow>
             (Some (heartbeat_atualiza agora heartbeat maquina),
              s\<lparr> maquinas := atualiza_primeiro alvo (heartbeat_atualiza agora heartbeat) (maquinas s),
                 metricas := metricas s @
                   (case hb_metricas heartbeat of
                      None \<Rightarrow> [] | Some mt \<Rightarrow> [nova_metrica (maq_id maquina) mt]),
                 alertas := alertas s @
                   (case hb_metricas heartbeat of
                      None \<Rightarrow> [] | Some mt \<Rightarrow> alertas_metricas maquina mt) \<rparr>))"

text \<open>
  The query of \<open>verificar_maquinas_offline\<close>: \<open>status != OFFLINE\<close> and
  \<open>ultima_conexao < limite_offline\<close> (a NULL \<open>ultima_conexao\<close> never satisfies the comparison).
\<close>

definition limite_offline :: "datetime \<Rightarrow> int \<Rightarrow> datetime" where
  "limite_offline agora minutos_offline = agora - timedelta_minutes minutos_offline"

definition maquina_selecionada :: "datetime \<Rightarrow> Maquina \<Rightarrow> bool" where
  "maquina_selecionada limite m =
     (maq_status m \<noteq> OFFLINE \<and>
      (case ultima_conexao m of None \<Rightarrow> False | Some t \<Rightarrow> t < limite))"

text \<open>The loop body: a selected machine that is not OFFLINE is set OFFLINE and alerted.\<close>

definition marcar_offline :: "Maquina \<Rightarrow> Maquina" where
  "marcar_offline m = (if maq_status m \<noteq> OFFLINE then m\<lparr> maq_status := OFFLINE \<rparr> else m)"

definition verificar_maquinas_offline ::
  "datetime \<Rightarrow> int \<Rightarrow> sistema \<Rightarrow> Maquina list \<times> sistema" where
  "verificar_maquinas_offline agora minutos_offline s =
     (let limite = limite_offline agora minutos_offline;
          selecao = filter (maquina_selecionada limite) (maquinas s)
      in (map marcar_offline selecao,
          s\<lparr> maquinas :=
               map (\<lambda>m. if maquina_selecionada limite m then marcar_offline m else m) (maquinas s),
             alertas := alertas s @
               map (\<lambda>m. Maquina_offline (maq_id m))
                   (filter (\<lambda>m. maq_status m \<noteq> OFFLINE) selecao) \<rparr>))"

definition bloquear_maquina :: "int \<Rightarrow> string \<Rightarrow> sistema \<Rightarrow> bool \<times> sistema" where
  "bloquear_maquina maquina_id motivo s =
     (case find (\<lambda>m. maq_id m = maquina_id) (maquinas s) of
        None \<Rightarrow> (False, s)
      | Some maquina \<Rightarrow>
          (True, s\<lparr> maquinas := atualiza_primeiro (\<lambda>m. maq_id m = maquina_id)
                                  (\<lambda>m. m\<lparr> maq_status := BLOQUEADA \<rparr>) (maquinas s) \<rparr>))"

definition desbloquear_maquina :: "int \<Rightarrow> sistema \<Rightarrow> bool \<times> sistema" where
  "desbloquear_maquina maquina_id s =
     (case find (\<lambda>m. maq_id m = maquina_id) (maquinas s) of
        None \<Rightarrow> (False, s)
      | Some maquina \<Rightarrow>
          (True, s\<lparr> maquinas := atualiza_primeiro (\<lambda>m. maq_id m = maquina_id)
                                  (\<lambda>m. m\<lparr> maq_status := ONLINE \<rparr>) (maquinas s) \<rparr>))"

section \<open>services/licenca_service.py\<close>

text \<open>\<open>licenca.data_expiracao and licenca.data_expiracao < datetime.utcnow()\<close>\<close>

definition expirada :: "datetime \<Rightarrow> Licenca \<Rightarrow> bool" where
  "expirada agora licenca =
     (case data_expiracao licenca of None \<Rightarrow> False | Some t \<Rightarrow> t < agora)"

text \<open>
  \<open>ativar_licenca\<close> reads the clock for the expiry check (\<open>agora1\<close>) and again for
  \<open>data_ativacao\<close> (\<open>agora2\<close>). \<open>if maquina_id:\<close> is false for \<open>None\<close> and for \<open>0\<close>.
\<close>

definition ativar_licenca ::
  "datetime \<Rightarrow> datetime \<Rightarrow> string \<Rightarrow> int option \<Rightarrow> sistema \<Rightarrow> bool \<times> sistema" where
  "ativar_licenca agora1 agora2 chave maquina_id s =
     (let alvo = (\<lambda>l. chave_licenca l = chave)
      in case find alvo (licencas s) of
           None \<Rightarrow> (False, s)
         | Some licenca \<Rightarrow>
             if lic_status licenca = ATIVA then (True, s)
             else if expirada agora1 licenca then
               (False,
                s\<lparr> licencas := atualiza_primeiro alvo (\<lambda>l. l\<lparr> lic_status := EXPIRADA \<rparr>) (licencas s),
                   alertas := alertas s @ [Licenca_expirada (lic_id licenca)] \<rparr>)
             else if limite_usos licenca > 0 \<and> usos_atuais licenca \<ge> limite_usos licenca then
               (False, s)
             else
               (True,
                s\<lparr> licencas := atualiza_primeiro alvo
                     (\<lambda>l. let l1 = l\<lparr> lic_status := ATIVA, data_ativacao := Some agora2,
                                        usos_atuais := usos_atuais l + 1 \<rparr>
                          in case maquina_id of
                               None \<Rightarrow> l1
                             | Some mid \<Rightarrow> if mid \<noteq> 0 then l1\<lparr> lic_maquina_id := Some mid \<rparr> else l1)
                     (licencas s) \<rparr>))"

definition verificar_licenca ::
  "datetime \<Rightarrow> string \<Rightarrow> sistema \<Rightarrow> Licenca option \<times> sistema" where
  "verificar_licenca agora chave s =
     (let alvo = (\<lambda>l. chave_licenca l = chave)
      in case find alvo (licencas s) of
           None \<Rightarrow> (None, s)
         | Some licenca \<Rightarrow>
             if expirada agora licenca then
               (Some (licenca\<lparr> lic_status := EXPIRADA \<rparr>),
                s\<lparr> licencas := atualiza_primeiro alvo (\<lambda>l. l\<lparr> lic_status := EXPIRADA \<rparr>) (licencas s),
                   alertas := alertas s @ [Licenca_expirada (lic_id licenca)] \<rparr>)
             else (Some licenca, s))"

text \<open>
  \<open>renovar_licenca\<close>: \<open>nova_data = licenca.data_expiracao or datetime.utcnow()\<close> reads the
  clock (\<open>agora1\<close>) only when there is no expiry date; \<open>data_renovacao\<close> is a second
  reading (\<open>agora2\<close>). \<open>timedelta(days=30 * meses)\<close> and the sum with it can raise
  \<open>OverflowError\<close>, before anything is written.
\<close>

definition renovar_licenca ::
  "datetime \<Rightarrow> datetime \<Rightarrow> int \<Rightarrow> int \<Rightarrow> sistema \<Rightarrow> py_error + (bool \<times> sistema)" where
  "renovar_licenca agora1 agora2 licenca_id meses s =
     (let alvo = (\<lambda>l. lic_id l = licenca_id)
      in case find alvo (licencas s) of
           None \<Rightarrow> Inr (False, s)
         | Some licenca \<Rightarrow>
             (case timedelta_of_days (30 * meses) of
                Inl e \<Rightarrow> Inl e
              | Inr extensao \<Rightarrow>
                  (case datetime_add
                          (case data_expiracao licenca of None \<Rightarrow> agora1 | Some t \<Rightarrow> t)
                          extensao of
                     Inl e \<Rightarrow> Inl e
                   | Inr nova_data \<Rightarrow>
                       Inr (True,
                         s\<lparr> licencas := atualiza_primeiro alvo
                              (\<lambda>l. l\<lparr> data_expiracao := Some nova_data,
                                       data_renovacao := Some agora2, lic_status := ATIVA \<rparr>)
                              (licencas s) \<rparr>))))"

definition bloquear_licenca :: "int \<Rightarrow> string \<Rightarrow> sistema \<Rightarrow> bool \<times> sistema" where
  "bloquear_licenca licenca_id motivo s =
     (let alvo = (\<lambda>l. lic_id l = licenca_id)
      in case find alvo (licencas s) of
           None \<Rightarrow> (False, s)
         | Some licenca \<Rightarrow>
             (True,
              s\<lparr> licencas := atualiza_primeiro alvo (\<lambda>l. l\<lparr> lic_status := SUSPENSA \<rparr>) (licencas s),
                 bloqueios := bloqueios s @
                   [\<lparr> blq_cliente_id = lic_cliente_id licenca,
                      blq_maquina_id = lic_maquina_id licenca,
                      blq_motivo = motivo, blq_tipo = ''licenca'', blq_severidade = ''alta'',
                      data_desbloqueio = None \<rparr>] \<rparr>))"

text \<open>
  The query of \<open>get_licencas_expirando\<close>: \<open>data_limite\<close> comes from a first clock reading
  and the lower bound from a second one; a NULL \<open>data_expiracao\<close> satisfies neither
  comparison.
\<close>

definition licenca_expirando :: "datetime \<Rightarrow> datetime \<Rightarrow> int \<Rightarrow> Licenca \<Rightarrow> bool" where
  "licenca_expirando agora1 agora2 dias l =
     (lic_status l = ATIVA \<and>
      (case data_expiracao l of
         None \<Rightarrow> False
       | Some t \<Rightarrow> t \<le> agora1 + timedelta_days dias \<and> t > agora2))"

definition get_licencas_expirando ::
  "datetime \<Rightarrow> datetime \<Rightarrow> int \<Rightarrow> sistema \<Rightarrow> Licenca list" where
  "get_licencas_expirando agora1 agora2 dias s =
     filter (licenca_expirando agora1 agora2 dias) (licencas s)"

text \<open>The \<open>if\<close>/\<open>elif\<close> chain on \<open>assinatura.ciclo\<close>, one branch per billing cycle.\<close>

definition duracao_ciclo :: "CicloFaturamento \<Rightarrow> timedelta" where
  "duracao_ciclo c =
     (case c of
        MENSAL \<Rightarrow> timedelta_days 30
      | TRIMESTRAL \<Rightarrow> timedelta_days 90
      | SEMESTRAL \<Rightarrow> timedelta_days 180
      | ANUAL \<Rightarrow> timedelta_days 365
      | BIANUAL \<Rightarrow> timedelta_days 730)"

definition renovacao_pendente :: "datetime \<Rightarrow> datetime \<Rightarrow> Assinatura \<Rightarrow> bool" where
  "renovacao_pendente agora1 agora2 a =
     (ass_status a = ''ativa'' \<and>
      (case data_fim a of
         None \<Rightarrow> False
       | Some t \<Rightarrow> t \<le> agora1 + timedelta_days 3 \<and> t > agora2) \<and>
      renovacao_automatica a)"

definition verificar_renovacoes ::
  "datetime \<Rightarrow> datetime \<Rightarrow> sistema \<Rightarrow> Assinatura list \<times> sistema" where
  "verificar_renovacoes agora1 agora2 s =
     (let selecao = filter (renovacao_pendente agora1 agora2) (assinaturas s)
      in (selecao,
          s\<lparr> alertas := alertas s @ map (\<lambda>a. Pagamento_pendente (ass_id a)) selecao \<rparr>))"

text \<open>
  \<open>renovar_assinatura\<close>: adding a \<open>timedelta\<close> to a NULL \<open>data_fim\<close> raises \<open>TypeError\<close>,
  and a sum that leaves the calendar raises \<open>OverflowError\<close>, before anything is written.
\<close>

definition renovar_assinatura :: "int \<Rightarrow> sistema \<Rightarrow> py_error + (bool \<times> sistema)" where
  "renovar_assinatura assinatura_id s =
     (let alvo = (\<lambda>a. ass_id a = assinatura_id)
      in case find alvo (assinaturas s) of
           None \<Rightarrow> Inr (False, s)
         | Some assinatura \<Rightarrow>
             (case data_fim assinatura of
                None \<Rightarrow> Inl TypeError
              | Some fim \<Rightarrow>
                  (case datetime_add fim (duracao_ciclo (ciclo assinatura)) of
                     Inl e \<Rightarrow> Inl e
                   | Inr nova_data_fim \<Rightarrow>
                       Inr (True,
                         s\<lparr> assinaturas := atualiza_primeiro alvo
                              (\<lambda>a. a\<lparr> data_fim := Some nova_data_fim \<rparr>) (assinaturas s),
                            clientes := atualiza_primeiro
                              (\<lambda>c. cli_id c = ass_cliente_id assinatura)
                              (\<lambda>c. c\<lparr> cli_data_expiracao := Some nova_data_fim \<rparr>)
                              (clientes s) \<rparr>))))"

section \<open>database/session.py\<close>

text \<open>
  \<open>get_db\<close> is a generator function wrapped by \<open>@contextmanager\<close>: a call returns a context
  manager around the generator that would yield the session, not the generator. \<open>next\<close>
  advances a generator and raises \<open>TypeError\<close> on an object that is no iterator, as a context
  manager is.
\<close>

datatype 'a objeto = Generator 'a | GeneratorContextManager 'a

definition get_db :: "sistema \<Rightarrow> sistema objeto" where
  "get_db s = GeneratorContextManager s"

definition py_next :: "'a objeto \<Rightarrow> py_error + 'a" where
  "py_next obj = (case obj of Generator x \<Rightarrow> Inr x | GeneratorContextManager x \<Rightarrow> Inl TypeError)"

section \<open>tasks/monitoramento.py\<close>

text \<open>
  Each job starts with \<open>db = next(get_db())\<close> inside its \<open>try\<close>; the \<open>except\<close> of the job logs
  whatever is raised, and the job ends with the session as the statements before the
  exception left it.
\<close>

definition monitorar_maquinas_offline :: "datetime \<Rightarrow> sistema \<Rightarrow> sistema" where
  "monitorar_maquinas_offline agora s =
     (case py_next (get_db s) of
        Inl e \<Rightarrow> s
      | Inr db \<Rightarrow> snd (verificar_maquinas_offline agora 5 db))"

text \<open>
  The loop of \<open>monitorar_licencas_expirando\<close> reads the clock once per licence:
  \<open>relogio i\<close> is the reading of iteration \<open>i\<close>. Subtracting from a NULL \<open>data_expiracao\<close>
  raises; the enclosing \<open>except\<close> logs the error and the loop is abandoned.
\<close>

fun laco_expirando :: "(nat \<Rightarrow> datetime) \<Rightarrow> nat \<Rightarrow> Licenca list \<Rightarrow> alerta list \<Rightarrow> alerta list" where
  "laco_expirando relogio i [] al = al"
| "laco_expirando relogio i (l # ls) al =
     (case data_expiracao l of
        None \<Rightarrow> al
      | Some t \<Rightarrow>
          (let dias_restantes = dot_days (t - relogio i)
           in laco_expirando relogio (Suc i) ls
                (if dias_restantes \<le> 3 then al @ [Licenca_expirada (lic_id l)] else al)))"

definition monitorar_licencas_expirando ::
  "datetime \<Rightarrow> datetime \<Rightarrow> (nat \<Rightarrow> datetime) \<Rightarrow> sistema \<Rightarrow> sistema" where
  "monitorar_licencas_expirando agora1 agora2 relogio s =
     (case py_next (get_db s) of
        Inl e \<Rightarrow> s
      | Inr db \<Rightarrow>
          db\<lparr> alertas := laco_expirando relogio 0 (get_licencas_expirando agora1 agora2 7 db)
                            (alertas db) \<rparr>)"

text \<open>
  The loop of \<open>monitorar_renovacoes_assinaturas\<close>; an exception of \<open>renovar_assinatura\<close> is
  caught by the enclosing \<open>except\<close>, which ends the loop with the session as it was.
\<close>

fun laco_renovacoes :: "Assinatura list \<Rightarrow> sistema \<Rightarrow> sistema" where
  "laco_renovacoes [] s = s"
| "laco_renovacoes (a # as) s =
     (if renovacao_automatica a then
        (case renovar_assinatura (ass_id a) s of
           Inl e \<Rightarrow> s
         | Inr r \<Rightarrow> laco_renovacoes as (snd r))
      else laco_renovacoes as s)"

definition monitorar_renovacoes_assinaturas :: "datetime \<Rightarrow> datetime \<Rightarrow> sistema \<Rightarrow> sistema" where
  "monitorar_renovacoes_assinaturas agora1 agora2 s =
     (case py_next (get_db s) of
        Inl e \<Rightarrow> s
      | Inr db \<Rightarrow>
          (let r = verificar_renovacoes agora1 agora2 db in laco_renovacoes (fst r) (snd r)))"

section \<open>events/maquina_events.py\<close>

text \<open>
  A websocket is a handle; the Python \<open>set\<close> of subscribers of a machine is the list of its
  members, without repetition, in the order the \<open>for\<close> loop meets them. \<open>falha w\<close> says that
  \<open>send_json\<close> on \<open>w\<close> raises.
\<close>

type_synonym websocket = nat

datatype 'd mensagem =
    Msg_heartbeat int 'd real
  | Msg_bloqueio int string real
  | Msg_desbloqueio int real

record MaquinaConnectionManager =
  active_connections :: "int \<rightharpoonup> websocket list"
  maquina_subscriptions :: "int \<rightharpoonup> websocket list"

text \<open>
  \<open>disconnect\<close>: \<open>list.remove\<close> raises \<open>ValueError\<close> when the websocket is not in the list of
  its client; then every subscription set loses the websocket and an emptied set loses its
  key.
\<close>

definition remover_assinaturas :: "websocket \<Rightarrow> MaquinaConnectionManager \<Rightarrow> MaquinaConnectionManager" where
  "remover_assinaturas websocket mgr =
     mgr\<lparr> maquina_subscriptions :=
            (\<lambda>maquina_id. case maquina_subscriptions mgr maquina_id of
                             None \<Rightarrow> None
                           | Some subs \<Rightarrow>
                               if removeAll websocket subs = [] then None
                               else Some (removeAll websocket subs)) \<rparr>"

definition disconnect ::
  "websocket \<Rightarrow> int \<Rightarrow> MaquinaConnectionManager \<Rightarrow> py_error + MaquinaConnectionManager" where
  "disconnect websocket cliente_id mgr =
     (case active_connections mgr cliente_id of
        None \<Rightarrow> Inr (remover_assinaturas websocket mgr)
      | Some conns \<Rightarrow>
          if websocket \<in> set conns then
            Inr (remover_assinaturas websocket
                  (mgr\<lparr> active_connections :=
                          (if remove1 websocket conns = []
                           then (active_connections mgr)(cliente_id := None)
                           else (active_connections mgr)(cliente_id \<mapsto> remove1 websocket conns)) \<rparr>))
          else Inl ValueError)"

text \<open>\<open>subscribe\<close>, up to the confirmation it sends: the websocket joins the set of the machine.\<close>

definition subscribe :: "websocket \<Rightarrow> int \<Rightarrow> MaquinaConnectionManager \<Rightarrow> MaquinaConnectionManager" where
  "subscribe websocket maquina_id mgr =
     mgr\<lparr> maquina_subscriptions :=
            (maquina_subscriptions mgr)
              (maquina_id \<mapsto> List.insert websocket
                 (case maquina_subscriptions mgr maquina_id of None \<Rightarrow> [] | Some subs \<Rightarrow> subs)) \<rparr>"

text \<open>
  While a broadcast awaits \<open>send_json\<close> the event loop runs the other tasks: the connection
  handlers of \<^verbatim>\<open>maquina_api.py\<close>, which call \<open>subscribe\<close> on a message and \<open>disconnect\<close> when
  their websocket closes. \<open>ambiente i\<close> is what they do during the await of iteration \<open>i\<close>, at
  most one call; a \<open>disconnect\<close> that raises leaves the manager as it was.
\<close>

datatype evento = Nada | Ev_disconnect websocket int | Ev_subscribe websocket int

definition aplica_evento :: "evento \<Rightarrow> MaquinaConnectionManager \<Rightarrow> MaquinaConnectionManager" where
  "aplica_evento ev mgr =
     (case ev of
        Nada \<Rightarrow> mgr
      | Ev_disconnect websocket cliente_id \<Rightarrow>
          (case disconnect websocket cliente_id mgr of Inl e \<Rightarrow> mgr | Inr mgr' \<Rightarrow> mgr')
      | Ev_subscribe websocket maquina_id \<Rightarrow> subscribe websocket maquina_id mgr)"

text \<open>The size of the set the loop iterates, empty once \<open>disconnect\<close> has deleted its key.\<close>

definition tamanho :: "MaquinaConnectionManager \<Rightarrow> int \<Rightarrow> nat" where
  "tamanho mgr maquina_id =
     (case maquina_subscriptions mgr maquina_id of None \<Rightarrow> 0 | Some subs \<Rightarrow> length subs)"

text \<open>
  The \<open>for\<close> loop over the live set. Each step of the set iterator, the one that finds the set
  exhausted included, first compares the size of the set with its size when the loop began and
  raises \<open>RuntimeError\<close> when they differ; the \<open>for\<close> statement is outside the \<open>try\<close>. The body
  is the \<open>try\<close>/\<open>except\<close> around one send: the attempt is recorded with the message and
  whether it was delivered, and a failing websocket is added to \<open>disconnected\<close>.
\<close>

fun laco_envio ::
  "(websocket \<Rightarrow> bool) \<Rightarrow> (nat \<Rightarrow> evento) \<Rightarrow> int \<Rightarrow> 'm \<Rightarrow> nat \<Rightarrow> nat \<Rightarrow> websocket list \<Rightarrow>
   MaquinaConnectionManager \<Rightarrow> (websocket \<times> 'm \<times> bool) list \<Rightarrow> websocket list \<Rightarrow>
   py_error option \<times> MaquinaConnectionManager \<times> (websocket \<times> 'm \<times> bool) list \<times> websocket list" where
  "laco_envio falha ambiente maquina_id message n0 i [] mgr envios disconnected =
     (if tamanho mgr maquina_id = n0 then (None, mgr, envios, disconnected)
      else (Some RuntimeError, mgr, envios, disconnected))"
| "laco_envio falha ambiente maquina_id message n0 i (w # ws) mgr envios disconnected =
     (if tamanho mgr maquina_id = n0 then
        laco_envio falha ambiente maquina_id message n0 (Suc i) ws
          (aplica_evento (ambiente i) mgr)
          (envios @ [(w, message, \<not> falha w)])
          (if falha w then List.insert w disconnected else disconnected)
      else (Some RuntimeError, mgr, envios, disconnected))"

text \<open>\<open>for websocket in disconnected: subscriptions.discard(websocket)\<close>\<close>

definition descartar :: "websocket list \<Rightarrow> websocket list \<Rightarrow> websocket list" where
  "descartar disconnected subs = fold removeAll disconnected subs"

text \<open>
  The broadcast methods have the same body and differ in the message they build;
  \<open>transmitir\<close> is that body. It returns the exception that left it, if any, the manager and
  the trace of the send attempts. The loop that discards looks the set up by its key at each
  step, a \<open>KeyError\<close> when the key is gone, and awaits nothing.
\<close>

definition transmitir ::
  "(websocket \<Rightarrow> bool) \<Rightarrow> (nat \<Rightarrow> evento) \<Rightarrow> int \<Rightarrow> 'm \<Rightarrow> MaquinaConnectionManager \<Rightarrow>
   py_error option \<times> MaquinaConnectionManager \<times> (websocket \<times> 'm \<times> bool) list" where
  "transmitir falha ambiente maquina_id message mgr =
     (case maquina_subscriptions mgr maquina_id of
        None \<Rightarrow> (None, mgr, [])
      | Some subs \<Rightarrow>
          (case laco_envio falha ambiente maquina_id message (length subs) 0 subs mgr [] [] of
             (Some e, mgr1, envios, disconnected) \<Rightarrow> (Some e, mgr1, envios)
           | (None, mgr1, envios, disconnected) \<Rightarrow>
               if disconnected = [] then (None, mgr1, envios)
               else (case maquina_subscriptions mgr1 maquina_id of
                       None \<Rightarrow> (Some KeyError, mgr1, envios)
                     | Some vivos \<Rightarrow>
                         (None,
                          mgr1\<lparr> maquina_subscriptions :=
                                  (maquina_subscriptions mgr1)
                                    (maquina_id \<mapsto> descartar disconnected vivos) \<rparr>,
                          envios))))"

definition broadcast_heartbeat ::
  "(websocket \<Rightarrow> bool) \<Rightarrow> (nat \<Rightarrow> evento) \<Rightarrow> real \<Rightarrow> int \<Rightarrow> 'd \<Rightarrow> MaquinaConnectionManager \<Rightarrow>
   py_error option \<times> MaquinaConnectionManager \<times> (websocket \<times> 'd mensagem \<times> bool) list" where
  "broadcast_heartbeat falha ambiente ts maquina_id heartbeat_data mgr =
     transmitir falha ambiente maquina_id (Msg_heartbeat maquina_id heartbeat_data ts) mgr"

definition broadcast_bloqueio ::
  "(websocket \<Rightarrow> bool) \<Rightarrow> (nat \<Rightarrow> evento) \<Rightarrow> real \<Rightarrow> int \<Rightarrow> string \<Rightarrow> MaquinaConnectionManager \<Rightarrow>
   py_error option \<times> MaquinaConnectionManager \<times> (websocket \<times> unit mensagem \<times> bool) list" where
  "broadcast_bloqueio falha ambiente ts maquina_id motivo mgr =
     transmitir falha ambiente maquina_id (Msg_bloqueio maquina_id motivo ts) mgr"

section \<open>api/maquina_api.py\<close>

text \<open>
  The endpoint \<open>POST /maquinas/{maquina_id}/bloquear\<close>: the service call, a 404 when it
  reports no machine, otherwise the broadcast of the block, and a 500 when the broadcast
  raises (permission checks are outside the model).
\<close>

datatype resposta = HTTP_404 | HTTP_200 | HTTP_500

definition api_bloquear_maquina ::
  "(websocket \<Rightarrow> bool) \<Rightarrow> (nat \<Rightarrow> evento) \<Rightarrow> real \<Rightarrow> int \<Rightarrow> string \<Rightarrow>
   sistema \<times> MaquinaConnectionManager \<Rightarrow>
   resposta \<times> (sistema \<times> MaquinaConnectionManager) \<times> (websocket \<times> unit mensagem \<times> bool) list" where
  "api_bloquear_maquina falha ambiente ts maquina_id motivo sm =
     (let r = bloquear_maquina maquina_id motivo (fst sm)
      in if \<not> fst r then (HTTP_404, (snd r, snd sm), [])
         else (let b = broadcast_bloqueio falha ambiente ts maquina_id motivo (snd sm)
               in (case fst b of
                     None \<Rightarrow> (HTTP_200, (snd r, fst (snd b)), snd (snd b))
                   | Some e \<Rightarrow> (HTTP_500, (snd r, fst (snd b)), snd (snd b)))))"

section \<open>Concrete inputs\<close>

definition sistema_vazio :: sistema where
  "sistema_vazio =
     \<lparr> maquinas = [], metricas = [], licencas = [], assinaturas = [], clientes = [],
       bloqueios = [], alertas = [] \<rparr>"

definition maquina_bloqueada :: Maquina where
  "maquina_bloqueada =
     \<lparr> maq_id = 1, maq_cliente_id = 1, maq_nome = ''m1'', identificador_unico = ''abcde'',
       ultima_conexao = Some 0, maq_status = BLOQUEADA, tempo_atividade = 0,
       versao_app = None \<rparr>"

definition maquina_online :: Maquina where
  "maquina_online = maquina_bloqueada\<lparr> maq_status := ONLINE \<rparr>"

definition heartbeat_online :: HeartbeatRequest where
  "heartbeat_online =
     \<lparr> hb_identificador_unico = ''abcde'', hb_status = ONLINE, hb_metricas = None,
       hb_versao_app = None \<rparr>"

definition licenca_exemplo :: Licenca where
  "licenca_exemplo =
     \<lparr> lic_id = 1, lic_cliente_id = 1, lic_maquina_id = None, chave_licenca = ''K1'',
       lic_tipo = TEMPORARIA, lic_status = PENDENTE, data_ativacao = None,
       data_expiracao = Some 0, data_renovacao = None, limite_usos = 3, usos_atuais = 3 \<rparr>"

definition sistema_licenca :: "Licenca \<Rightarrow> sistema" where
  "sistema_licenca l = sistema_vazio\<lparr> licencas := [l] \<rparr>"

definition sistema_maquina :: "Maquina \<Rightarrow> sistema" where
  "sistema_maquina m = sistema_vazio\<lparr> maquinas := [m] \<rparr>"

definition assinatura_exemplo :: Assinatura where
  "assinatura_exemplo =
     \<lparr> ass_id = 1, ass_cliente_id = 1, ass_licenca_id = 1, plano = ''Pro'', ciclo = MENSAL,
       data_inicio = 0, data_fim = Some 2592000000000, renovacao_automatica = True,
       ass_status = ''ativa'' \<rparr>"

definition cliente_exemplo :: Cliente where
  "cliente_exemplo = \<lparr> cli_id = 1, cli_email = ''a@b.c'', cli_data_expiracao = Some 2592000000000 \<rparr>"

definition sistema_assinatura :: sistema where
  "sistema_assinatura =
     sistema_vazio\<lparr> assinaturas := [assinatura_exemplo], clientes := [cliente_exemplo] \<rparr>"

definition gestor_exemplo :: MaquinaConnectionManager where
  "gestor_exemplo =
     \<lparr> active_connections = Map.empty, maquina_subscriptions = [1 \<mapsto> [10, 11, 12]] \<rparr>"

definition licenca_5_dias :: Licenca where
  "licenca_5_dias =
     licenca_exemplo\<lparr> lic_status := ATIVA, data_expiracao := Some 432000000000 \<rparr>"

definition licenca_2_dias :: Licenca where
  "licenca_2_dias =
     licenca_exemplo\<lparr> lic_id := 2, chave_licenca := ''K2'', lic_status := ATIVA,
                      data_expiracao := Some 172800000000 \<rparr>"

definition relogio_zero :: "nat \<Rightarrow> datetime" where
  "relogio_zero i = 0"

definition falha_11 :: "websocket \<Rightarrow> bool" where
  "falha_11 w = (w = 11)"

definition licenca_2024 :: Licenca where
  "licenca_2024 = licenca_exemplo\<lparr> data_expiracao := Some 63849600000000000 \<rparr>"

definition assinatura_5_dias :: Assinatura where
  "assinatura_5_dias = assinatura_exemplo\<lparr> data_fim := Some 432000000000 \<rparr>"

definition sem_interferencia :: "nat \<Rightarrow> evento" where
  "sem_interferencia i = Nada"

definition desconecta_11 :: "nat \<Rightarrow> evento" where
  "desconecta_11 i = (if i = 1 then Ev_disconnect 11 1 else Nada)"

definition gestor_conectado :: MaquinaConnectionManager where
  "gestor_conectado =
     \<lparr> active_connections = [1 \<mapsto> [10, 11, 12]], maquina_subscriptions = [1 \<mapsto> [10, 11, 12]] \<rparr>"

definition assinatura_9999 :: Assinatura where
  "assinatura_9999 = assinatura_exemplo\<lparr> data_fim := Some 315537897599999999 \<rparr>"

section \<open>Tables: first match and its update\<close>

lemma find_atualiza_primeiro:
  "find P xs = Some x \<Longrightarrow> P (f x) \<Longrightarrow> find P (atualiza_primeiro P f xs) = Some (f x)"
  by (induction xs) (auto split: if_splits)

lemma find_Some_holds: "find P xs = Some x \<Longrightarrow> P x"
  by (induction xs) (auto split: if_splits)

lemma map_atualiza_primeiro:
  "(\<And>x. g (f x) = g x) \<Longrightarrow> map g (atualiza_primeiro P f xs) = map g xs"
  by (induction xs) auto

section \<open>Device status: heartbeat and sweep\<close>

lemma heartbeat_atualiza_status:
  "maq_status (heartbeat_atualiza agora hb m) = hb_status hb"
  by (simp add: heartbeat_atualiza_def Let_def split: option.splits)

lemma heartbeat_atualiza_ident:
  "identificador_unico (heartbeat_atualiza agora hb m) = identificador_unico m"
  by (simp add: heartbeat_atualiza_def Let_def split: option.splits)

lemma maquina_selecionada_conv:
  "maquina_selecionada (limite_offline agora minutos) =
     (\<lambda>m. maq_status m \<noteq> OFFLINE \<and>
          (\<exists>t. ultima_conexao m = Some t \<and> t < agora - minutos * 60000000))"
  by (auto simp: fun_eq_iff maquina_selecionada_def limite_offline_def timedelta_minutes_def
           split: option.splits)

lemma marcar_offline_nao_selecionada:
  "\<not> maquina_selecionada lm (marcar_offline m)"
  by (simp add: maquina_selecionada_def marcar_offline_def)

text \<open>
  C1, as the code has it: a heartbeat for a registered machine writes the reported status
  whatever the current status is, Blocked included, and the sweep returns and sets OFFLINE
  exactly the machines whose status is not OFFLINE and whose last connection is older than
  the cutoff, Blocked and Maintenance machines included.
\<close>

theorem C1_amended:
  "(find (\<lambda>m. identificador_unico m = hb_identificador_unico hb) (maquinas s) = Some m \<longrightarrow>
      fst (processar_heartbeat agora hb s) = Some (heartbeat_atualiza agora hb m) \<and>
      find (\<lambda>m. identificador_unico m = hb_identificador_unico hb)
           (maquinas (snd (processar_heartbeat agora hb s))) = Some (heartbeat_atualiza agora hb m) \<and>
      maq_status (heartbeat_atualiza agora hb m) = hb_status hb)
   \<and> fst (verificar_maquinas_offline agora minutos s) =
       map (\<lambda>m. m\<lparr> maq_status := OFFLINE \<rparr>)
         (filter (\<lambda>m. maq_status m \<noteq> OFFLINE \<and>
                       (\<exists>t. ultima_conexao m = Some t \<and> t < agora - minutos * 60000000))
                 (maquinas s))
   \<and> maquinas (snd (verificar_maquinas_offline agora minutos s)) =
       map (\<lambda>m. if maq_status m \<noteq> OFFLINE \<and>
                    (\<exists>t. ultima_conexao m = Some t \<and> t < agora - minutos * 60000000)
                 then m\<lparr> maq_status := OFFLINE \<rparr> else m)
           (maquinas s)"
proof -
  have hb: "find (\<lambda>m. identificador_unico m = hb_identificador_unico hb) (maquinas s) = Some m \<longrightarrow>
      fst (processar_heartbeat agora hb s) = Some (heartbeat_atualiza agora hb m) \<and>
      find (\<lambda>m. identificador_unico m = hb_identificador_unico hb)
           (maquinas (snd (processar_heartbeat agora hb s))) = Some (heartbeat_atualiza agora hb m) \<and>
      maq_status (heartbeat_atualiza agora hb m) = hb_status hb"
  proof
    assume f: "find (\<lambda>m. identificador_unico m = hb_identificador_unico hb) (maquinas s) = Some m"
    have "identificador_unico m = hb_identificador_unico hb"
      using find_Some_holds [OF f] .
    then have "identificador_unico (heartbeat_atualiza agora hb m) = hb_identificador_unico hb"
      by (simp add: heartbeat_atualiza_ident)
    with f show "fst (processar_heartbeat agora hb s) = Some (heartbeat_atualiza agora hb m) \<and>
      find (\<lambda>m. identificador_unico m = hb_identificador_unico hb)
           (maquinas (snd (processar_heartbeat agora hb s))) = Some (heartbeat_atualiza agora hb m) \<and>
      maq_status (heartbeat_atualiza agora hb m) = hb_status hb"
      by (simp add: processar_heartbeat_def Let_def find_atualiza_primeiro heartbeat_atualiza_status)
  qed
  have sw1: "fst (verificar_maquinas_offline agora minutos s) =
       map (\<lambda>m. m\<lparr> maq_status := OFFLINE \<rparr>)
         (filter (\<lambda>m. maq_status m \<noteq> OFFLINE \<and>
                       (\<exists>t. ultima_conexao m = Some t \<and> t < agora - minutos * 60000000))
                 (maquinas s))"
    unfolding verificar_maquinas_offline_def Let_def maquina_selecionada_conv
    by (simp add: marcar_offline_def)
  have sw2: "maquinas (snd (verificar_maquinas_offline agora minutos s)) =
       map (\<lambda>m. if maq_status m \<noteq> OFFLINE \<and>
                    (\<exists>t. ultima_conexao m = Some t \<and> t < agora - minutos * 60000000)
                 then m\<lparr> maq_status := OFFLINE \<rparr> else m)
           (maquinas s)"
    unfolding verificar_maquinas_offline_def Let_def maquina_selecionada_conv
    by (auto simp: marcar_offline_def)
  from hb sw1 sw2 show ?thesis by blast
qed

text \<open>
  The theorem at a Blocked machine last seen at time 0: a heartbeat reporting ONLINE at
  time 1000, and a sweep ten minutes after time 0 with a five-minute threshold.
\<close>

theorem C1_amended_witness:
  "find (\<lambda>m. identificador_unico m = hb_identificador_unico heartbeat_online)
        (maquinas (sistema_maquina maquina_bloqueada)) = Some maquina_bloqueada
   \<and> map maq_status (maquinas (snd (processar_heartbeat 1000 heartbeat_online
        (sistema_maquina maquina_bloqueada)))) = [ONLINE]
   \<and> fst (processar_heartbeat 1000 heartbeat_online (sistema_maquina maquina_bloqueada))
       = Some (heartbeat_atualiza 1000 heartbeat_online maquina_bloqueada)
   \<and> fst (verificar_maquinas_offline 600000000 5 (sistema_maquina maquina_bloqueada))
       = [maquina_bloqueada\<lparr> maq_status := OFFLINE \<rparr>]"
proof -
  have h: "find (\<lambda>m. identificador_unico m = hb_identificador_unico heartbeat_online)
        (maquinas (sistema_maquina maquina_bloqueada)) = Some maquina_bloqueada"
    by (simp add: sistema_maquina_def sistema_vazio_def maquina_bloqueada_def heartbeat_online_def)
  have e: "map maq_status (maquinas (snd (processar_heartbeat 1000 heartbeat_online
        (sistema_maquina maquina_bloqueada)))) = [ONLINE]"
    by (simp add: sistema_maquina_def sistema_vazio_def maquina_bloqueada_def heartbeat_online_def
          processar_heartbeat_def heartbeat_atualiza_def)
  show ?thesis
    using h e
      C1_amended [where hb = heartbeat_online and s = "sistema_maquina maquina_bloqueada"
        and m = maquina_bloqueada and agora = 1000 and minutos = 5]
      C1_amended [where hb = heartbeat_online and s = "sistema_maquina maquina_bloqueada"
        and m = maquina_bloqueada and agora = 600000000 and minutos = 5]
    by (simp add: sistema_maquina_def sistema_vazio_def maquina_bloqueada_def)
qed

text \<open>
  C1 as stated fails: the heartbeat turns the Blocked machine ONLINE, and the sweep selects
  the Blocked machine, and the same machine in Maintenance, and sets each OFFLINE.
\<close>

theorem C1_counterexample:
  "maq_status maquina_bloqueada = BLOQUEADA \<and>
   map maq_status (maquinas (snd (processar_heartbeat 1000 heartbeat_online
        (sistema_maquina maquina_bloqueada)))) = [ONLINE] \<and>
   map maq_status (fst (verificar_maquinas_offline 600000000 5
        (sistema_maquina maquina_bloqueada))) = [OFFLINE] \<and>
   map maq_status (maquinas (snd (verificar_maquinas_offline 600000000 5
        (sistema_maquina (maquina_bloqueada\<lparr> maq_status := MANUTENCAO \<rparr>))))) = [OFFLINE]"
  by (simp add: maquina_bloqueada_def sistema_maquina_def sistema_vazio_def heartbeat_online_def
        processar_heartbeat_def heartbeat_atualiza_def verificar_maquinas_offline_def
        limite_offline_def timedelta_minutes_def maquina_selecionada_def marcar_offline_def)

lemma segunda_selecao:
  "map marcar_offline
     (filter (maquina_selecionada lm2)
        (map (\<lambda>m. if maquina_selecionada lm1 m then marcar_offline m else m) xs))
   = map (\<lambda>m. m\<lparr> maq_status := OFFLINE \<rparr>)
       (filter (\<lambda>m. \<not> maquina_selecionada lm1 m \<and> maquina_selecionada lm2 m) xs)"
proof (induction xs)
  case Nil
  then show ?case by simp
next
  case (Cons m xs)
  show ?case
  proof (cases "maquina_selecionada lm1 m")
    case True
    with Cons show ?thesis by (simp add: marcar_offline_nao_selecionada)
  next
    case False
    show ?thesis
    proof (cases "maquina_selecionada lm2 m")
      case True
      then have "maq_status m \<noteq> OFFLINE" by (simp add: maquina_selecionada_def)
      with Cons False True show ?thesis by (simp add: marcar_offline_def)
    next
      case nsel: False
      with Cons False show ?thesis by simp
    qed
  qed
qed

lemma entre_limites:
  "(\<not> maquina_selecionada (limite_offline agora1 minutos1) m \<and>
    maquina_selecionada (limite_offline agora2 minutos2) m)
   = (maq_status m \<noteq> OFFLINE \<and>
      (\<exists>t. ultima_conexao m = Some t \<and> agora1 - minutos1 * 60000000 \<le> t \<and>
           t < agora2 - minutos2 * 60000000))"
  by (auto simp: maquina_selecionada_def limite_offline_def timedelta_minutes_def
           split: option.splits)

text \<open>
  C7, as the code has it: after a first sweep, a second sweep with no heartbeat in between
  returns exactly the machines that are not OFFLINE and whose last connection lies from the
  first cutoff (current time minus threshold) on and before the second, each set OFFLINE;
  none of them was returned by the first sweep. So the second sweep returns the empty list
  when its cutoff is not later than the first, as at the same time with the same threshold.
\<close>

theorem C7_amended:
  "fst (verificar_maquinas_offline agora2 minutos2
         (snd (verificar_maquinas_offline agora1 minutos1 s)))
     = map (\<lambda>m. m\<lparr> maq_status := OFFLINE \<rparr>)
         (filter (\<lambda>m. maq_status m \<noteq> OFFLINE \<and>
                       (\<exists>t. ultima_conexao m = Some t \<and> agora1 - minutos1 * 60000000 \<le> t \<and>
                            t < agora2 - minutos2 * 60000000))
                 (maquinas s))
   \<and> (agora2 - minutos2 * 60000000 \<le> agora1 - minutos1 * 60000000 \<longrightarrow>
        fst (verificar_maquinas_offline agora2 minutos2
              (snd (verificar_maquinas_offline agora1 minutos1 s))) = [])"
proof -
  have exact: "fst (verificar_maquinas_offline agora2 minutos2
         (snd (verificar_maquinas_offline agora1 minutos1 s)))
     = map (\<lambda>m. m\<lparr> maq_status := OFFLINE \<rparr>)
         (filter (\<lambda>m. maq_status m \<noteq> OFFLINE \<and>
                       (\<exists>t. ultima_conexao m = Some t \<and> agora1 - minutos1 * 60000000 \<le> t \<and>
                            t < agora2 - minutos2 * 60000000))
                 (maquinas s))"
    by (simp add: verificar_maquinas_offline_def Let_def segunda_selecao entre_limites)
  have "agora2 - minutos2 * 60000000 \<le> agora1 - minutos1 * 60000000 \<Longrightarrow>
        filter (\<lambda>m. maq_status m \<noteq> OFFLINE \<and>
                       (\<exists>t. ultima_conexao m = Some t \<and> agora1 - minutos1 * 60000000 \<le> t \<and>
                            t < agora2 - minutos2 * 60000000))
                 (maquinas s) = []"
    by (auto simp: filter_empty_conv)
  with exact show ?thesis by simp
qed

text \<open>
  The theorem at an ONLINE machine last seen at time 0, swept twice at minute ten with a
  five-minute threshold: the first sweep returns the machine, the second nothing.
\<close>

theorem C7_amended_witness:
  "(600000000 :: int) - 5 * 60000000 \<le> 600000000 - 5 * 60000000
   \<and> fst (verificar_maquinas_offline 600000000 5 (sistema_maquina maquina_online))
       = [maquina_online\<lparr> maq_status := OFFLINE \<rparr>]
   \<and> fst (verificar_maquinas_offline 600000000 5
            (snd (verificar_maquinas_offline 600000000 5 (sistema_maquina maquina_online)))) = []"
proof -
  have e: "fst (verificar_maquinas_offline 600000000 5 (sistema_maquina maquina_online))
       = [maquina_online\<lparr> maq_status := OFFLINE \<rparr>]"
    by (simp add: maquina_online_def maquina_bloqueada_def sistema_maquina_def sistema_vazio_def
          verificar_maquinas_offline_def limite_offline_def timedelta_minutes_def
          maquina_selecionada_def marcar_offline_def)
  show ?thesis
    using e C7_amended [where ?agora1.0 = 600000000 and ?minutos1.0 = 5
        and ?agora2.0 = 600000000 and ?minutos2.0 = 5 and s = "sistema_maquina maquina_online"]
    by simp
qed

text \<open>
  C7 as stated fails at a later time: an ONLINE machine last seen at time 0 is not yet stale
  for the sweep at minute five (cutoff 0), and is for the sweep one microsecond later.
\<close>

theorem C7_counterexample:
  "fst (verificar_maquinas_offline 300000000 5 (sistema_maquina maquina_online)) = [] \<and>
   fst (verificar_maquinas_offline 300000001 5
         (snd (verificar_maquinas_offline 300000000 5 (sistema_maquina maquina_online))))
     = [maquina_online\<lparr> maq_status := OFFLINE \<rparr>]"
  by (simp add: maquina_online_def maquina_bloqueada_def sistema_maquina_def sistema_vazio_def
        verificar_maquinas_offline_def limite_offline_def timedelta_minutes_def
        maquina_selecionada_def marcar_offline_def)

section \<open>Licences\<close>

text \<open>
  C2, as the code has it: renewing an existing licence for \<open>meses\<close> months adds thirty days
  per month to the old expiry date when there is one, wherever it lies relative to the
  current time, and to the current time when there is none. When that many days fit a
  \<open>timedelta\<close> and the new date is in the calendar, the call succeeds, writes the new date,
  the status ATIVA and the current time as renewal date, and changes nothing else; with an
  old expiry date \<open>T\<close> and a non-negative number of months the new date is at least \<open>T\<close>.
  Otherwise the call raises \<open>OverflowError\<close> and nothing is written.
\<close>

theorem C2_amended:
  assumes "find (\<lambda>l. lic_id l = licenca_id) (licencas s) = Some l"
    and "base = (case data_expiracao l of None \<Rightarrow> agora1 | Some T \<Rightarrow> T)"
    and "nova = base + meses * 30 * 86400000000"
  shows "(- 999999999 \<le> 30 * meses \<and> 30 * meses \<le> 999999999 \<and>
          0 \<le> nova \<and> nova \<le> 315537897599999999 \<longrightarrow>
            renovar_licenca agora1 agora2 licenca_id meses s =
              Inr (True,
                   s\<lparr> licencas := atualiza_primeiro (\<lambda>l. lic_id l = licenca_id)
                          (\<lambda>l. l\<lparr> data_expiracao := Some nova, data_renovacao := Some agora2,
                                   lic_status := ATIVA \<rparr>)
                          (licencas s) \<rparr>) \<and>
            find (\<lambda>l. lic_id l = licenca_id)
                 (atualiza_primeiro (\<lambda>l. lic_id l = licenca_id)
                    (\<lambda>l. l\<lparr> data_expiracao := Some nova, data_renovacao := Some agora2,
                             lic_status := ATIVA \<rparr>)
                    (licencas s))
              = Some (l\<lparr> data_expiracao := Some nova, data_renovacao := Some agora2,
                         lic_status := ATIVA \<rparr>) \<and>
            (\<forall>T. data_expiracao l = Some T \<and> 0 \<le> meses \<longrightarrow> T \<le> nova))
     \<and> (30 * meses < - 999999999 \<or> 999999999 < 30 * meses \<or>
          nova < 0 \<or> 315537897599999999 < nova \<longrightarrow>
            renovar_licenca agora1 agora2 licenca_id meses s = Inl OverflowError)"
proof -
  have id: "lic_id l = licenca_id" using find_Some_holds [OF assms(1)] .
  have soma: "base + timedelta_days (30 * meses) = nova"
    using assms(3) by (simp add: timedelta_days_def)
  have ok: "- 999999999 \<le> 30 * meses \<and> 30 * meses \<le> 999999999 \<and>
          0 \<le> nova \<and> nova \<le> 315537897599999999 \<longrightarrow>
            renovar_licenca agora1 agora2 licenca_id meses s =
              Inr (True,
                   s\<lparr> licencas := atualiza_primeiro (\<lambda>l. lic_id l = licenca_id)
                          (\<lambda>l. l\<lparr> data_expiracao := Some nova, data_renovacao := Some agora2,
                                   lic_status := ATIVA \<rparr>)
                          (licencas s) \<rparr>)"
    using assms(1) soma
    by (simp add: renovar_licenca_def Let_def timedelta_of_days_def datetime_add_def
          datetime_max_def assms(2) [symmetric])
  have achada: "find (\<lambda>l. lic_id l = licenca_id)
                 (atualiza_primeiro (\<lambda>l. lic_id l = licenca_id)
                    (\<lambda>l. l\<lparr> data_expiracao := Some nova, data_renovacao := Some agora2,
                             lic_status := ATIVA \<rparr>)
                    (licencas s))
              = Some (l\<lparr> data_expiracao := Some nova, data_renovacao := Some agora2,
                         lic_status := ATIVA \<rparr>)"
    using assms(1) id by (simp add: find_atualiza_primeiro)
  have mono: "\<forall>T. data_expiracao l = Some T \<and> 0 \<le> meses \<longrightarrow> T \<le> nova"
    using assms(2,3) by auto
  have estouro: "30 * meses < - 999999999 \<or> 999999999 < 30 * meses \<or>
          nova < 0 \<or> 315537897599999999 < nova \<longrightarrow>
            renovar_licenca agora1 agora2 licenca_id meses s = Inl OverflowError"
    using assms(1) soma
    by (auto simp: renovar_licenca_def Let_def timedelta_of_days_def datetime_add_def
          datetime_max_def assms(2) [symmetric])
  from ok achada mono estouro show ?thesis by blast
qed

text \<open>
  The theorem at a licence that expired at time 0, renewed for one month ten days later:
  the new expiry date is day 30, not day 40; and at a licence that expires on day 739000,
  in year 2024, renewed for 100000 months: the new date would be past year 9999 and the
  call raises.
\<close>

theorem C2_amended_witness:
  "find (\<lambda>l. lic_id l = 1) (licencas (sistema_licenca licenca_exemplo)) = Some licenca_exemplo \<and>
   renovar_licenca 864000000000 864000000001 1 1 (sistema_licenca licenca_exemplo)
     = Inr (True, sistema_licenca (licenca_exemplo\<lparr> data_expiracao := Some 2592000000000,
               data_renovacao := Some 864000000001, lic_status := ATIVA \<rparr>)) \<and>
   find (\<lambda>l. lic_id l = 1) (licencas (sistema_licenca licenca_2024)) = Some licenca_2024 \<and>
   (315537897599999999 :: int) < 63849600000000000 + 100000 * 30 * 86400000000 \<and>
   renovar_licenca 864000000000 864000000001 1 100000 (sistema_licenca licenca_2024)
     = Inl OverflowError"
proof -
  have h: "find (\<lambda>l. lic_id l = 1) (licencas (sistema_licenca licenca_exemplo)) = Some licenca_exemplo"
    by (simp add: licenca_exemplo_def sistema_licenca_def sistema_vazio_def)
  have h': "find (\<lambda>l. lic_id l = 1) (licencas (sistema_licenca licenca_2024)) = Some licenca_2024"
    by (simp add: licenca_2024_def licenca_exemplo_def sistema_licenca_def sistema_vazio_def)
  have b: "(0 :: int) = (case data_expiracao licenca_exemplo of None \<Rightarrow> 864000000000 | Some T \<Rightarrow> T)"
    by (simp add: licenca_exemplo_def)
  have b': "(63849600000000000 :: int)
      = (case data_expiracao licenca_2024 of None \<Rightarrow> 864000000000 | Some T \<Rightarrow> T)"
    by (simp add: licenca_2024_def)
  have n: "(2592000000000 :: int) = 0 + 1 * 30 * 86400000000" by simp
  have n': "(323049600000000000 :: int) = 63849600000000000 + 100000 * 30 * 86400000000" by simp
  have i: "lic_id licenca_exemplo = 1 \<and> lic_id licenca_2024 = 1"
    by (simp add: licenca_2024_def licenca_exemplo_def)
  show ?thesis
    using h h' i
      C2_amended [OF h b n, of 864000000001]
      C2_amended [OF h' b' n', of 864000000001]
    by (simp add: sistema_licenca_def sistema_vazio_def)
qed

text \<open>
  C2 as stated fails for a licence already expired: with \<open>T = 0\<close> and the current time at
  day 10, one month of renewal gives day 30, and \<open>max(T, now) + extension\<close> is day 40.
\<close>

theorem C2_counterexample:
  "data_expiracao licenca_exemplo = Some 0 \<and>
   renovar_licenca 864000000000 864000000000 1 1 (sistema_licenca licenca_exemplo)
     = Inr (True, sistema_licenca (licenca_exemplo\<lparr> data_expiracao := Some 2592000000000,
               data_renovacao := Some 864000000000, lic_status := ATIVA \<rparr>)) \<and>
   (2592000000000 :: int) \<noteq> max 0 864000000000 + timedelta_days (30 * 1)"
  by (simp add: renovar_licenca_def timedelta_of_days_def datetime_add_def datetime_max_def
        sistema_licenca_def sistema_vazio_def licenca_exemplo_def timedelta_days_def)

text \<open>
  C5: when the licence found for the key is not ATIVA, is not expired at the time of the
  check, and has a positive usage limit that its usage count has reached, \<open>ativar_licenca\<close>
  returns \<open>False\<close> and the whole session, every field of the licence and the alert log
  included, is as it was.
\<close>

theorem C5_quota:
  assumes "find (\<lambda>l. chave_licenca l = chave) (licencas s) = Some l"
    and "lic_status l \<noteq> ATIVA"
    and "\<not> expirada agora1 l"
    and "limite_usos l > 0"
    and "usos_atuais l \<ge> limite_usos l"
  shows "ativar_licenca agora1 agora2 chave maquina_id s = (False, s)"
  using assms by (simp add: ativar_licenca_def Let_def)

text \<open>
  The theorem at a PENDENTE licence without expiry date, with limit 3 and count 3, asked to
  bind machine 7.
\<close>

theorem C5_quota_witness:
  "find (\<lambda>l. chave_licenca l = ''K1'')
        (licencas (sistema_licenca (licenca_exemplo\<lparr> data_expiracao := None \<rparr>)))
     = Some (licenca_exemplo\<lparr> data_expiracao := None \<rparr>)
   \<and> lic_status (licenca_exemplo\<lparr> data_expiracao := None \<rparr>) \<noteq> ATIVA
   \<and> \<not> expirada 100 (licenca_exemplo\<lparr> data_expiracao := None \<rparr>)
   \<and> limite_usos (licenca_exemplo\<lparr> data_expiracao := None \<rparr>) = 3
   \<and> usos_atuais (licenca_exemplo\<lparr> data_expiracao := None \<rparr>) = 3
   \<and> ativar_licenca 100 101 ''K1'' (Some 7) (sistema_licenca (licenca_exemplo\<lparr> data_expiracao := None \<rparr>))
       = (False, sistema_licenca (licenca_exemplo\<lparr> data_expiracao := None \<rparr>))"
proof -
  let ?l = "licenca_exemplo\<lparr> data_expiracao := None \<rparr>"
  have h1: "find (\<lambda>l. chave_licenca l = ''K1'') (licencas (sistema_licenca ?l)) = Some ?l"
    by (simp add: licenca_exemplo_def sistema_licenca_def sistema_vazio_def)
  have h2: "lic_status ?l \<noteq> ATIVA" by (simp add: licenca_exemplo_def)
  have h3: "\<not> expirada 100 ?l" by (simp add: expirada_def)
  have h4: "limite_usos ?l > 0" by (simp add: licenca_exemplo_def)
  have h5: "usos_atuais ?l \<ge> limite_usos ?l" by (simp add: licenca_exemplo_def)
  have v: "limite_usos ?l = 3 \<and> usos_atuais ?l = 3" by (simp add: licenca_exemplo_def)
  show ?thesis
    using h1 h2 h3 v C5_quota [OF h1 h2 h3 h4 h5, of 101 "Some 7"] by simp
qed

lemma ativar_sucesso_ativa:
  assumes "fst (ativar_licenca a1 a2 chave mid s)"
  shows "\<exists>l. find (\<lambda>l. chave_licenca l = chave) (licencas (snd (ativar_licenca a1 a2 chave mid s))) = Some l
            \<and> lic_status l = ATIVA"
proof (cases "find (\<lambda>l. chave_licenca l = chave) (licencas s)")
  case None
  with assms show ?thesis by (simp add: ativar_licenca_def Let_def)
next
  case (Some l)
  have k: "chave_licenca l = chave" using find_Some_holds [OF Some] .
  show ?thesis
  proof (cases "lic_status l = ATIVA")
    case True
    with Some show ?thesis by (simp add: ativar_licenca_def Let_def)
  next
    case False
    with assms Some have ne: "\<not> expirada a1 l"
      and nq: "\<not> (limite_usos l > 0 \<and> usos_atuais l \<ge> limite_usos l)"
      by (auto simp: ativar_licenca_def Let_def split: if_splits)
    let ?f = "\<lambda>l. let l1 = l\<lparr> lic_status := ATIVA, data_ativacao := Some a2,
                                        usos_atuais := usos_atuais l + 1 \<rparr>
                          in case mid of
                               None \<Rightarrow> l1
                             | Some m \<Rightarrow> if m \<noteq> 0 then l1\<lparr> lic_maquina_id := Some m \<rparr> else l1"
    have kf: "chave_licenca (?f l) = chave" using k by (simp add: Let_def split: option.splits)
    have sf: "lic_status (?f l) = ATIVA" by (simp add: Let_def split: option.splits)
    have "licencas (snd (ativar_licenca a1 a2 chave mid s)) =
          atualiza_primeiro (\<lambda>l. chave_licenca l = chave) ?f (licencas s)"
      using Some False ne nq by (auto simp: ativar_licenca_def Let_def)
    then have "find (\<lambda>l. chave_licenca l = chave) (licencas (snd (ativar_licenca a1 a2 chave mid s))) = Some (?f l)"
      using find_atualiza_primeiro [of "\<lambda>l. chave_licenca l = chave" "licencas s" l ?f] Some kf
      by simp
    with sf show ?thesis by blast
  qed
qed

lemma ativar_usos_segunda:
  assumes "a1 \<le> b1"
  shows "map usos_atuais (licencas (snd (ativar_licenca b1 b2 chave mid' (snd (ativar_licenca a1 a2 chave mid s)))))
       = map usos_atuais (licencas (snd (ativar_licenca a1 a2 chave mid s)))"
proof (cases "find (\<lambda>l. chave_licenca l = chave) (licencas s)")
  case None
  then show ?thesis by (simp add: ativar_licenca_def Let_def)
next
  case (Some l)
  have k: "chave_licenca l = chave" using find_Some_holds [OF Some] .
  let ?s1 = "snd (ativar_licenca a1 a2 chave mid s)"
  consider (ativa) "lic_status l = ATIVA"
    | (exp) "lic_status l \<noteq> ATIVA" "expirada a1 l"
    | (quota) "lic_status l \<noteq> ATIVA" "\<not> expirada a1 l" "limite_usos l > 0 \<and> usos_atuais l \<ge> limite_usos l"
    | (ok) "lic_status l \<noteq> ATIVA" "\<not> expirada a1 l" "\<not> (limite_usos l > 0 \<and> usos_atuais l \<ge> limite_usos l)"
    by blast
  then show ?thesis
  proof cases
    case ativa
    then have "?s1 = s" using Some by (simp add: ativar_licenca_def Let_def)
    then show ?thesis using Some ativa by (simp add: ativar_licenca_def Let_def)
  next
    case exp
    have f1: "find (\<lambda>l. chave_licenca l = chave) (licencas ?s1) = Some (l\<lparr> lic_status := EXPIRADA \<rparr>)"
      using Some exp k by (simp add: ativar_licenca_def Let_def find_atualiza_primeiro)
    have "expirada b1 (l\<lparr> lic_status := EXPIRADA \<rparr>)"
      using exp(2) assms by (auto simp: expirada_def split: option.splits)
    then show ?thesis using f1
      by (simp add: ativar_licenca_def [of b1] Let_def map_atualiza_primeiro)
  next
    case quota
    then have s1: "?s1 = s" using Some by (simp add: ativar_licenca_def Let_def)
    show ?thesis unfolding s1 using Some quota
      by (simp add: ativar_licenca_def Let_def map_atualiza_primeiro)
  next
    case ok
    from ativar_sucesso_ativa [of a1 a2 chave mid s]
    obtain l' where "find (\<lambda>l. chave_licenca l = chave) (licencas ?s1) = Some l'" "lic_status l' = ATIVA"
      using Some ok by (auto simp: ativar_licenca_def Let_def)
    then show ?thesis by (simp add: ativar_licenca_def [of b1] Let_def)
  qed
qed

text \<open>
  C6: when the licence found for the key is ATIVA, \<open>ativar_licenca\<close> returns \<open>True\<close> and
  leaves the session as it was; a call that follows a successful one therefore returns
  \<open>True\<close> and changes nothing; and, the clock not running backwards, the second of two
  consecutive calls never changes a usage count, however the first one ended.
\<close>

theorem C6_idempotent:
  "(find (\<lambda>l. chave_licenca l = chave) (licencas s) = Some l \<and> lic_status l = ATIVA \<longrightarrow>
      ativar_licenca a1 a2 chave mid s = (True, s))
   \<and> (fst (ativar_licenca a1 a2 chave mid s) \<longrightarrow>
      ativar_licenca b1 b2 chave mid' (snd (ativar_licenca a1 a2 chave mid s))
        = (True, snd (ativar_licenca a1 a2 chave mid s)))
   \<and> (a1 \<le> b1 \<longrightarrow>
      map usos_atuais (licencas (snd (ativar_licenca b1 b2 chave mid' (snd (ativar_licenca a1 a2 chave mid s)))))
        = map usos_atuais (licencas (snd (ativar_licenca a1 a2 chave mid s))))"
proof -
  have p1: "find (\<lambda>l. chave_licenca l = chave) (licencas s) = Some l \<and> lic_status l = ATIVA \<longrightarrow>
      ativar_licenca a1 a2 chave mid s = (True, s)"
    by (simp add: ativar_licenca_def Let_def)
  have p2: "fst (ativar_licenca a1 a2 chave mid s) \<longrightarrow>
      ativar_licenca b1 b2 chave mid' (snd (ativar_licenca a1 a2 chave mid s))
        = (True, snd (ativar_licenca a1 a2 chave mid s))"
  proof
    assume "fst (ativar_licenca a1 a2 chave mid s)"
    from ativar_sucesso_ativa [OF this]
    obtain l' where "find (\<lambda>l. chave_licenca l = chave)
        (licencas (snd (ativar_licenca a1 a2 chave mid s))) = Some l'" "lic_status l' = ATIVA"
      by blast
    then show "ativar_licenca b1 b2 chave mid' (snd (ativar_licenca a1 a2 chave mid s))
        = (True, snd (ativar_licenca a1 a2 chave mid s))"
      by (simp add: ativar_licenca_def [of b1] Let_def)
  qed
  have p3: "a1 \<le> b1 \<longrightarrow>
      map usos_atuais (licencas (snd (ativar_licenca b1 b2 chave mid' (snd (ativar_licenca a1 a2 chave mid s)))))
        = map usos_atuais (licencas (snd (ativar_licenca a1 a2 chave mid s)))"
    using ativar_usos_segunda by blast
  from p1 p2 p3 show ?thesis by blast
qed

text \<open>
  The theorem at a licence that is ATIVA with usage count 3, and at a PENDENTE licence
  without limit or expiry date: the first call raises its count from 3 to 4 and the second
  leaves it at 4.
\<close>

theorem C6_idempotent_witness:
  "find (\<lambda>l. chave_licenca l = ''K1'')
        (licencas (sistema_licenca (licenca_exemplo\<lparr> lic_status := ATIVA \<rparr>)))
     = Some (licenca_exemplo\<lparr> lic_status := ATIVA \<rparr>)
   \<and> ativar_licenca 10 11 ''K1'' None (sistema_licenca (licenca_exemplo\<lparr> lic_status := ATIVA \<rparr>))
       = (True, sistema_licenca (licenca_exemplo\<lparr> lic_status := ATIVA \<rparr>))
   \<and> (10 :: int) \<le> 20
   \<and> fst (ativar_licenca 10 11 ''K1'' None
            (sistema_licenca (licenca_exemplo\<lparr> data_expiracao := None, limite_usos := 0 \<rparr>)))
   \<and> map usos_atuais (licencas (snd (ativar_licenca 10 11 ''K1'' None
            (sistema_licenca (licenca_exemplo\<lparr> data_expiracao := None, limite_usos := 0 \<rparr>))))) = [4]
   \<and> map usos_atuais (licencas (snd (ativar_licenca 20 21 ''K1'' None
        (snd (ativar_licenca 10 11 ''K1'' None
            (sistema_licenca (licenca_exemplo\<lparr> data_expiracao := None, limite_usos := 0 \<rparr>))))))) = [4]"
proof -
  let ?a = "licenca_exemplo\<lparr> lic_status := ATIVA \<rparr>"
  let ?p = "licenca_exemplo\<lparr> data_expiracao := None, limite_usos := 0 \<rparr>"
  have h1: "find (\<lambda>l. chave_licenca l = ''K1'') (licencas (sistema_licenca ?a)) = Some ?a
            \<and> lic_status ?a = ATIVA"
    by (simp add: licenca_exemplo_def sistema_licenca_def sistema_vazio_def)
  have h2: "fst (ativar_licenca 10 11 ''K1'' None (sistema_licenca ?p))"
    by (simp add: ativar_licenca_def expirada_def licenca_exemplo_def sistema_licenca_def
          sistema_vazio_def)
  have e: "map usos_atuais (licencas (snd (ativar_licenca 10 11 ''K1'' None (sistema_licenca ?p)))) = [4]"
    by (simp add: ativar_licenca_def expirada_def licenca_exemplo_def sistema_licenca_def
          sistema_vazio_def)
  show ?thesis
    using h1 h2 e
      C6_idempotent [where chave = "''K1''" and s = "sistema_licenca ?a" and l = ?a
        and ?a1.0 = 10 and ?a2.0 = 11 and ?b1.0 = 20 and ?b2.0 = 21 and mid = None and mid' = None]
      C6_idempotent [where chave = "''K1''" and s = "sistema_licenca ?p" and l = ?p
        and ?a1.0 = 10 and ?a2.0 = 11 and ?b1.0 = 20 and ?b2.0 = 21 and mid = None and mid' = None]
    by simp
qed

text \<open>
  C10: when the licence found for the key has an expiry date before the current time,
  \<open>verificar_licenca\<close> returns it with status EXPIRADA, writes that status whatever the
  status was, and requests one expiry alert; a second call, the clock not running backwards,
  requests one more.
\<close>

theorem C10_verify:
  assumes "find (\<lambda>l. chave_licenca l = chave) (licencas s) = Some l"
    and "data_expiracao l = Some t" and "t < agora" and "agora \<le> agora'"
  shows "fst (verificar_licenca agora chave s) = Some (l\<lparr> lic_status := EXPIRADA \<rparr>) \<and>
     find (\<lambda>l. chave_licenca l = chave) (licencas (snd (verificar_licenca agora chave s)))
        = Some (l\<lparr> lic_status := EXPIRADA \<rparr>) \<and>
     alertas (snd (verificar_licenca agora chave s)) = alertas s @ [Licenca_expirada (lic_id l)] \<and>
     alertas (snd (verificar_licenca agora' chave (snd (verificar_licenca agora chave s))))
        = alertas s @ [Licenca_expirada (lic_id l), Licenca_expirada (lic_id l)]"
proof -
  let ?alvo = "\<lambda>l. chave_licenca l = chave"
  let ?s1 = "snd (verificar_licenca agora chave s)"
  have k: "chave_licenca l = chave" using find_Some_holds [OF assms(1)] .
  have e: "expirada agora l" using assms(2,3) by (simp add: expirada_def)
  have r: "verificar_licenca agora chave s =
      (Some (l\<lparr> lic_status := EXPIRADA \<rparr>),
       s\<lparr> licencas := atualiza_primeiro ?alvo (\<lambda>l. l\<lparr> lic_status := EXPIRADA \<rparr>) (licencas s),
          alertas := alertas s @ [Licenca_expirada (lic_id l)] \<rparr>)"
    using assms(1) e by (simp add: verificar_licenca_def Let_def)
  have f1: "find ?alvo (licencas ?s1) = Some (l\<lparr> lic_status := EXPIRADA \<rparr>)"
    using assms(1) k by (simp add: r find_atualiza_primeiro)
  have e': "expirada agora' (l\<lparr> lic_status := EXPIRADA \<rparr>)"
    using assms(2,3,4) by (simp add: expirada_def)
  have a1: "alertas ?s1 = alertas s @ [Licenca_expirada (lic_id l)]" by (simp add: r)
  have "alertas (snd (verificar_licenca agora' chave ?s1)) =
        alertas ?s1 @ [Licenca_expirada (lic_id l)]"
    using f1 e' by (simp add: verificar_licenca_def Let_def)
  with a1 have a2: "alertas (snd (verificar_licenca agora' chave ?s1))
        = alertas s @ [Licenca_expirada (lic_id l), Licenca_expirada (lic_id l)]" by simp
  from r f1 a1 a2 show ?thesis by simp
qed

text \<open>
  The theorem at a CANCELADA licence that expired at time 0, verified at times 100 and 200:
  it becomes EXPIRADA and two alerts are requested.
\<close>

theorem C10_verify_witness:
  "find (\<lambda>l. chave_licenca l = ''K1'')
        (licencas (sistema_licenca (licenca_exemplo\<lparr> lic_status := CANCELADA \<rparr>)))
     = Some (licenca_exemplo\<lparr> lic_status := CANCELADA \<rparr>)
   \<and> data_expiracao (licenca_exemplo\<lparr> lic_status := CANCELADA \<rparr>) = Some 0
   \<and> (0 :: int) < 100 \<and> (100 :: int) \<le> 200
   \<and> fst (verificar_licenca 100 ''K1'' (sistema_licenca (licenca_exemplo\<lparr> lic_status := CANCELADA \<rparr>)))
       = Some (licenca_exemplo\<lparr> lic_status := EXPIRADA \<rparr>)
   \<and> alertas (snd (verificar_licenca 200 ''K1''
        (snd (verificar_licenca 100 ''K1''
           (sistema_licenca (licenca_exemplo\<lparr> lic_status := CANCELADA \<rparr>))))))
       = [Licenca_expirada 1, Licenca_expirada 1]"
proof -
  let ?l = "licenca_exemplo\<lparr> lic_status := CANCELADA \<rparr>"
  have h1: "find (\<lambda>l. chave_licenca l = ''K1'') (licencas (sistema_licenca ?l)) = Some ?l"
    by (simp add: licenca_exemplo_def sistema_licenca_def sistema_vazio_def)
  have h2: "data_expiracao ?l = Some 0" by (simp add: licenca_exemplo_def)
  have h3: "(0 :: int) < 100" by simp
  have h4: "(100 :: int) \<le> 200" by simp
  have v: "lic_id ?l = 1 \<and> alertas (sistema_licenca ?l) = []"
    by (simp add: licenca_exemplo_def sistema_licenca_def sistema_vazio_def)
  show ?thesis
    using h1 h2 v C10_verify [OF h1 h2 h3 h4] by simp
qed

section \<open>The licence expiry monitor\<close>

text \<open>
  The query alone returns exactly the ATIVA licences whose expiry date is after the current
  time and at most \<open>dias\<close> days after it, and writes nothing.
\<close>

lemma get_licencas_expirando_conv:
  "get_licencas_expirando agora1 agora2 dias s =
     filter (\<lambda>l. lic_status l = ATIVA \<and>
                 (\<exists>t. data_expiracao l = Some t \<and> agora2 < t \<and> t \<le> agora1 + dias * 86400000000))
            (licencas s)"
proof -
  have "licenca_expirando agora1 agora2 dias =
      (\<lambda>l. lic_status l = ATIVA \<and>
           (\<exists>t. data_expiracao l = Some t \<and> agora2 < t \<and> t \<le> agora1 + dias * 86400000000))"
    by (auto simp: fun_eq_iff licenca_expirando_def timedelta_days_def split: option.splits)
  then show ?thesis unfolding get_licencas_expirando_def by simp
qed

text \<open>The job never reaches its query: it ends where it began, on any input.\<close>

lemma monitorar_licencas_expirando_nada:
  "monitorar_licencas_expirando agora1 agora2 relogio s = s"
  by (simp add: monitorar_licencas_expirando_def get_db_def py_next_def)

text \<open>
  C3 at one ATIVA licence that expires in two days, the clock at 0: the query selects it,
  its remaining days are below the three of the job's own alert condition and the loop of
  the job, given the selection, would request the alert; but \<open>next(get_db())\<close> raises, and the
  job as it runs requests no alert and leaves the session as it was.
\<close>

theorem C3_sweep_requests_no_alert:
  "get_licencas_expirando 0 0 7 (sistema_licenca licenca_2_dias) = [licenca_2_dias]
   \<and> laco_expirando relogio_zero 0 [licenca_2_dias] [] = [Licenca_expirada 2]
   \<and> py_next (get_db (sistema_licenca licenca_2_dias)) = Inl TypeError
   \<and> monitorar_licencas_expirando 0 0 relogio_zero (sistema_licenca licenca_2_dias)
       = sistema_licenca licenca_2_dias
   \<and> alertas (monitorar_licencas_expirando 0 0 relogio_zero (sistema_licenca licenca_2_dias)) = []"
  by (simp add: get_licencas_expirando_def licenca_expirando_def timedelta_days_def
        monitorar_licencas_expirando_def get_db_def py_next_def dot_days_def relogio_zero_def
        sistema_licenca_def sistema_vazio_def licenca_2_dias_def licenca_exemplo_def)

section \<open>Broadcast to the subscribers of a machine\<close>

lemma fold_removeAll: "fold removeAll ds xs = filter (\<lambda>w. w \<notin> set ds) xs"
  by (induction ds arbitrary: xs) (auto simp: removeAll_filter_not_eq intro: filter_cong)

lemma laco_envio_sossegado:
  "tamanho mgr maquina_id = n0 \<Longrightarrow>
   \<exists>d. laco_envio falha (\<lambda>i. Nada) maquina_id message n0 i ws mgr envios disc
          = (None, mgr, envios @ map (\<lambda>w. (w, message, \<not> falha w)) ws, d)
       \<and> set d = set disc \<union> {w \<in> set ws. falha w}"
proof (induction ws arbitrary: i envios disc)
  case Nil
  then show ?case by simp
next
  case (Cons w ws)
  let ?disc = "if falha w then List.insert w disc else disc"
  from Cons.IH [OF Cons.prems, of "Suc i" "envios @ [(w, message, \<not> falha w)]" ?disc]
  obtain d where d: "laco_envio falha (\<lambda>i. Nada) maquina_id message n0 (Suc i) ws mgr
          (envios @ [(w, message, \<not> falha w)]) ?disc
        = (None, mgr, (envios @ [(w, message, \<not> falha w)]) @ map (\<lambda>w. (w, message, \<not> falha w)) ws, d)"
      and sd: "set d = set ?disc \<union> {w \<in> set ws. falha w}"
    by blast
  have "laco_envio falha (\<lambda>i. Nada) maquina_id message n0 i (w # ws) mgr envios disc
        = (None, mgr, envios @ map (\<lambda>w. (w, message, \<not> falha w)) (w # ws), d)"
    using Cons.prems d by (simp add: aplica_evento_def)
  moreover have "set d = set disc \<union> {v \<in> set (w # ws). falha v}"
    using sd by auto
  ultimately show ?case by blast
qed

text \<open>
  With no other task running during the sends, the broadcast attempts every subscriber once,
  in order, whatever the outcome of the sends before it, and the set keeps exactly the
  subscribers whose send succeeded.
\<close>

lemma transmitir_sossegado:
  assumes "maquina_subscriptions mgr maquina_id = Some subs"
  shows "fst (transmitir falha (\<lambda>i. Nada) maquina_id message mgr) = None
     \<and> snd (snd (transmitir falha (\<lambda>i. Nada) maquina_id message mgr))
         = map (\<lambda>w. (w, message, \<not> falha w)) subs
     \<and> maquina_subscriptions (fst (snd (transmitir falha (\<lambda>i. Nada) maquina_id message mgr))) maquina_id
         = Some (filter (\<lambda>w. \<not> falha w) subs)"
proof -
  let ?r = "laco_envio falha (\<lambda>i. Nada) maquina_id message (length subs) 0 subs mgr [] []"
  have t: "tamanho mgr maquina_id = length subs" using assms by (simp add: tamanho_def)
  from laco_envio_sossegado [OF t, of falha message 0 subs "[]" "[]"]
  obtain disc where disc: "?r = (None, mgr, map (\<lambda>w. (w, message, \<not> falha w)) subs, disc)"
    and sd0: "set disc = set [] \<union> {w \<in> set subs. falha w}"
    by auto
  then have sd: "set disc = {w \<in> set subs. falha w}" by simp
  show ?thesis
  proof (cases "disc = []")
    case True
    with sd have "\<forall>w \<in> set subs. \<not> falha w" by auto
    then have "filter (\<lambda>w. \<not> falha w) subs = subs" by simp
    with True disc assms show ?thesis by (simp add: transmitir_def)
  next
    case False
    have "descartar disc subs = filter (\<lambda>w. \<not> falha w) subs"
      using sd by (auto simp: descartar_def fold_removeAll intro: filter_cong)
    with False disc assms show ?thesis by (simp add: transmitir_def)
  qed
qed

text \<open>
  C8 at machine 1 with subscribers 10, 11 and 12, the send to 11 failing: when nothing else
  runs, 10 and 12 are delivered the message and 11 leaves the set. When the connection
  handler of 11 calls \<open>disconnect\<close> while the send to 11 is awaited, the set has changed size
  at the next step of the loop: the broadcast ends in \<open>RuntimeError\<close> after the attempts on 10
  and 11, and 12, whose send would succeed and which is still subscribed, is never sent the
  message.
\<close>

theorem C8_broadcast_aborts:
  "maquina_subscriptions gestor_conectado 1 = Some [10, 11, 12]
   \<and> falha_11 11 \<and> \<not> falha_11 10 \<and> \<not> falha_11 12
   \<and> fst (broadcast_heartbeat falha_11 sem_interferencia 0 1 ''hb'' gestor_conectado) = None
   \<and> snd (snd (broadcast_heartbeat falha_11 sem_interferencia 0 1 ''hb'' gestor_conectado))
       = [(10, Msg_heartbeat 1 ''hb'' 0, True), (11, Msg_heartbeat 1 ''hb'' 0, False),
          (12, Msg_heartbeat 1 ''hb'' 0, True)]
   \<and> maquina_subscriptions
        (fst (snd (broadcast_heartbeat falha_11 sem_interferencia 0 1 ''hb'' gestor_conectado))) 1
       = Some [10, 12]
   \<and> fst (broadcast_heartbeat falha_11 desconecta_11 0 1 ''hb'' gestor_conectado)
       = Some RuntimeError
   \<and> snd (snd (broadcast_heartbeat falha_11 desconecta_11 0 1 ''hb'' gestor_conectado))
       = [(10, Msg_heartbeat 1 ''hb'' 0, True), (11, Msg_heartbeat 1 ''hb'' 0, False)]
   \<and> maquina_subscriptions
        (fst (snd (broadcast_heartbeat falha_11 desconecta_11 0 1 ''hb'' gestor_conectado))) 1
       = Some [10, 12]"
  by (simp add: broadcast_heartbeat_def transmitir_def tamanho_def aplica_evento_def
        disconnect_def remover_assinaturas_def descartar_def gestor_conectado_def
        falha_11_def sem_interferencia_def desconecta_11_def)

section \<open>Subscription renewal\<close>

lemma renovacao_pendente_conv:
  "renovacao_pendente agora1 agora2 =
     (\<lambda>a. ass_status a = ''ativa'' \<and> renovacao_automatica a \<and>
          (\<exists>t. data_fim a = Some t \<and> agora2 < t \<and> t \<le> agora1 + 3 * 86400000000))"
  by (auto simp: fun_eq_iff renovacao_pendente_def timedelta_days_def split: option.splits)

lemma duracao_ciclo_dias:
  "duracao_ciclo c =
     (case c of MENSAL \<Rightarrow> 30 | TRIMESTRAL \<Rightarrow> 90 | SEMESTRAL \<Rightarrow> 180 | ANUAL \<Rightarrow> 365
              | BIANUAL \<Rightarrow> 730) * 86400000000"
  by (simp add: duracao_ciclo_def timedelta_days_def split: CicloFaturamento.splits)

text \<open>The scheduled job never reaches its query: it ends where it began, on any input.\<close>

lemma monitorar_renovacoes_assinaturas_nada:
  "monitorar_renovacoes_assinaturas agora1 agora2 s = s"
  by (simp add: monitorar_renovacoes_assinaturas_def get_db_def py_next_def)

text \<open>
  C9, as the code has it: the renewal query has no lookahead to be given; it returns exactly
  the subscriptions with status \<open>ativa\<close>, automatic renewal set, and an end date after the
  current time and at most three days after it, requests one payment alert for each, and
  writes nothing else. Renewing a subscription that has an end date adds the days of its
  billing cycle, 30, 90, 180, 365 or 730, to that date; when the new date is in the calendar
  the call succeeds, writes it as the end date of the subscription and as the expiry date of
  its client and changes nothing else, and otherwise it raises \<open>OverflowError\<close> and nothing is
  written.
\<close>

theorem C9_amended:
  "fst (verificar_renovacoes agora1 agora2 s) =
     filter (\<lambda>a. ass_status a = ''ativa'' \<and> renovacao_automatica a \<and>
                 (\<exists>t. data_fim a = Some t \<and> agora2 < t \<and> t \<le> agora1 + 3 * 86400000000))
            (assinaturas s)
   \<and> snd (verificar_renovacoes agora1 agora2 s) =
       s\<lparr> alertas := alertas s @ map (\<lambda>a. Pagamento_pendente (ass_id a))
                                     (fst (verificar_renovacoes agora1 agora2 s)) \<rparr>
   \<and> (find (\<lambda>a. ass_id a = i) (assinaturas s) = Some a \<and> data_fim a = Some t \<and>
       dias = (case ciclo a of MENSAL \<Rightarrow> 30 | TRIMESTRAL \<Rightarrow> 90 | SEMESTRAL \<Rightarrow> 180
                             | ANUAL \<Rightarrow> 365 | BIANUAL \<Rightarrow> 730) \<and>
       0 \<le> t + dias * 86400000000 \<and> t + dias * 86400000000 \<le> 315537897599999999 \<longrightarrow>
         renovar_assinatura i s =
           Inr (True,
                s\<lparr> assinaturas := atualiza_primeiro (\<lambda>a. ass_id a = i)
                       (\<lambda>a. a\<lparr> data_fim := Some (t + dias * 86400000000) \<rparr>) (assinaturas s),
                   clientes := atualiza_primeiro (\<lambda>c. cli_id c = ass_cliente_id a)
                       (\<lambda>c. c\<lparr> cli_data_expiracao := Some (t + dias * 86400000000) \<rparr>)
                       (clientes s) \<rparr>) \<and>
         find (\<lambda>a. ass_id a = i)
              (atualiza_primeiro (\<lambda>a. ass_id a = i)
                 (\<lambda>a. a\<lparr> data_fim := Some (t + dias * 86400000000) \<rparr>) (assinaturas s))
           = Some (a\<lparr> data_fim := Some (t + dias * 86400000000) \<rparr>) \<and>
         (\<forall>c. find (\<lambda>c. cli_id c = ass_cliente_id a) (clientes s) = Some c \<longrightarrow>
              find (\<lambda>c. cli_id c = ass_cliente_id a)
                   (atualiza_primeiro (\<lambda>c. cli_id c = ass_cliente_id a)
                      (\<lambda>c. c\<lparr> cli_data_expiracao := Some (t + dias * 86400000000) \<rparr>)
                      (clientes s))
                = Some (c\<lparr> cli_data_expiracao := Some (t + dias * 86400000000) \<rparr>)))
   \<and> (find (\<lambda>a. ass_id a = i) (assinaturas s) = Some a \<and> data_fim a = Some t \<and>
       dias = (case ciclo a of MENSAL \<Rightarrow> 30 | TRIMESTRAL \<Rightarrow> 90 | SEMESTRAL \<Rightarrow> 180
                             | ANUAL \<Rightarrow> 365 | BIANUAL \<Rightarrow> 730) \<and>
       (t + dias * 86400000000 < 0 \<or> 315537897599999999 < t + dias * 86400000000) \<longrightarrow>
         renovar_assinatura i s = Inl OverflowError)"
proof -
  let ?dias = "case ciclo a of MENSAL \<Rightarrow> 30 | TRIMESTRAL \<Rightarrow> 90 | SEMESTRAL \<Rightarrow> 180
                             | ANUAL \<Rightarrow> 365 | BIANUAL \<Rightarrow> (730 :: int)"
  have p1: "fst (verificar_renovacoes agora1 agora2 s) =
     filter (\<lambda>a. ass_status a = ''ativa'' \<and> renovacao_automatica a \<and>
                 (\<exists>t. data_fim a = Some t \<and> agora2 < t \<and> t \<le> agora1 + 3 * 86400000000))
            (assinaturas s)"
    unfolding verificar_renovacoes_def Let_def renovacao_pendente_conv by simp
  have p2: "snd (verificar_renovacoes agora1 agora2 s) =
       s\<lparr> alertas := alertas s @ map (\<lambda>a. Pagamento_pendente (ass_id a))
                                     (fst (verificar_renovacoes agora1 agora2 s)) \<rparr>"
    by (simp add: verificar_renovacoes_def Let_def)
  have p3: "find (\<lambda>a. ass_id a = i) (assinaturas s) = Some a \<and> data_fim a = Some t \<and>
       dias = ?dias \<and>
       0 \<le> t + dias * 86400000000 \<and> t + dias * 86400000000 \<le> 315537897599999999 \<longrightarrow>
         renovar_assinatura i s =
           Inr (True,
                s\<lparr> assinaturas := atualiza_primeiro (\<lambda>a. ass_id a = i)
                       (\<lambda>a. a\<lparr> data_fim := Some (t + dias * 86400000000) \<rparr>) (assinaturas s),
                   clientes := atualiza_primeiro (\<lambda>c. cli_id c = ass_cliente_id a)
                       (\<lambda>c. c\<lparr> cli_data_expiracao := Some (t + dias * 86400000000) \<rparr>)
                       (clientes s) \<rparr>) \<and>
         find (\<lambda>a. ass_id a = i)
              (atualiza_primeiro (\<lambda>a. ass_id a = i)
                 (\<lambda>a. a\<lparr> data_fim := Some (t + dias * 86400000000) \<rparr>) (assinaturas s))
           = Some (a\<lparr> data_fim := Some (t + dias * 86400000000) \<rparr>) \<and>
         (\<forall>c. find (\<lambda>c. cli_id c = ass_cliente_id a) (clientes s) = Some c \<longrightarrow>
              find (\<lambda>c. cli_id c = ass_cliente_id a)
                   (atualiza_primeiro (\<lambda>c. cli_id c = ass_cliente_id a)
                      (\<lambda>c. c\<lparr> cli_data_expiracao := Some (t + dias * 86400000000) \<rparr>)
                      (clientes s))
                = Some (c\<lparr> cli_data_expiracao := Some (t + dias * 86400000000) \<rparr>))"
  proof (intro impI, elim conjE)
    assume f: "find (\<lambda>a. ass_id a = i) (assinaturas s) = Some a" and d: "data_fim a = Some t"
      and dd: "dias = ?dias"
      and lo: "0 \<le> t + dias * 86400000000" and hi: "t + dias * 86400000000 \<le> 315537897599999999"
    have id: "ass_id a = i" using find_Some_holds [OF f] .
    have dur: "duracao_ciclo (ciclo a) = dias * 86400000000"
      using dd by (simp add: duracao_ciclo_dias)
    have r: "renovar_assinatura i s =
           Inr (True,
                s\<lparr> assinaturas := atualiza_primeiro (\<lambda>a. ass_id a = i)
                       (\<lambda>a. a\<lparr> data_fim := Some (t + dias * 86400000000) \<rparr>) (assinaturas s),
                   clientes := atualiza_primeiro (\<lambda>c. cli_id c = ass_cliente_id a)
                       (\<lambda>c. c\<lparr> cli_data_expiracao := Some (t + dias * 86400000000) \<rparr>)
                       (clientes s) \<rparr>)"
      using f d lo hi
      by (simp add: renovar_assinatura_def Let_def datetime_add_def datetime_max_def dur)
    have a': "find (\<lambda>a. ass_id a = i)
              (atualiza_primeiro (\<lambda>a. ass_id a = i)
                 (\<lambda>a. a\<lparr> data_fim := Some (t + dias * 86400000000) \<rparr>) (assinaturas s))
           = Some (a\<lparr> data_fim := Some (t + dias * 86400000000) \<rparr>)"
      using f id by (simp add: find_atualiza_primeiro)
    have c': "\<forall>c. find (\<lambda>c. cli_id c = ass_cliente_id a) (clientes s) = Some c \<longrightarrow>
              find (\<lambda>c. cli_id c = ass_cliente_id a)
                   (atualiza_primeiro (\<lambda>c. cli_id c = ass_cliente_id a)
                      (\<lambda>c. c\<lparr> cli_data_expiracao := Some (t + dias * 86400000000) \<rparr>)
                      (clientes s))
                = Some (c\<lparr> cli_data_expiracao := Some (t + dias * 86400000000) \<rparr>)"
    proof (intro allI impI)
      fix c assume fc: "find (\<lambda>c. cli_id c = ass_cliente_id a) (clientes s) = Some c"
      have "cli_id c = ass_cliente_id a" using find_Some_holds [OF fc] .
      with fc show "find (\<lambda>c. cli_id c = ass_cliente_id a)
                   (atualiza_primeiro (\<lambda>c. cli_id c = ass_cliente_id a)
                      (\<lambda>c. c\<lparr> cli_data_expiracao := Some (t + dias * 86400000000) \<rparr>)
                      (clientes s))
                = Some (c\<lparr> cli_data_expiracao := Some (t + dias * 86400000000) \<rparr>)"
        by (simp add: find_atualiza_primeiro)
    qed
    from r a' c' show "renovar_assinatura i s =
           Inr (True,
                s\<lparr> assinaturas := atualiza_primeiro (\<lambda>a. ass_id a = i)
                       (\<lambda>a. a\<lparr> data_fim := Some (t + dias * 86400000000) \<rparr>) (assinaturas s),
                   clientes := atualiza_primeiro (\<lambda>c. cli_id c = ass_cliente_id a)
                       (\<lambda>c. c\<lparr> cli_data_expiracao := Some (t + dias * 86400000000) \<rparr>)
                       (clientes s) \<rparr>) \<and>
         find (\<lambda>a. ass_id a = i)
              (atualiza_primeiro (\<lambda>a. ass_id a = i)
                 (\<lambda>a. a\<lparr> data_fim := Some (t + dias * 86400000000) \<rparr>) (assinaturas s))
           = Some (a\<lparr> data_fim := Some (t + dias * 86400000000) \<rparr>) \<and>
         (\<forall>c. find (\<lambda>c. cli_id c = ass_cliente_id a) (clientes s) = Some c \<longrightarrow>
              find (\<lambda>c. cli_id c = ass_cliente_id a)
                   (atualiza_primeiro (\<lambda>c. cli_id c = ass_cliente_id a)
                      (\<lambda>c. c\<lparr> cli_data_expiracao := Some (t + dias * 86400000000) \<rparr>)
                      (clientes s))
                = Some (c\<lparr> cli_data_expiracao := Some (t + dias * 86400000000) \<rparr>))"
      by blast
  qed
  have p4: "find (\<lambda>a. ass_id a = i) (assinaturas s) = Some a \<and> data_fim a = Some t \<and>
       dias = ?dias \<and>
       (t + dias * 86400000000 < 0 \<or> 315537897599999999 < t + dias * 86400000000) \<longrightarrow>
         renovar_assinatura i s = Inl OverflowError"
  proof (intro impI, elim conjE)
    assume f: "find (\<lambda>a. ass_id a = i) (assinaturas s) = Some a" and d: "data_fim a = Some t"
      and dd: "dias = ?dias"
      and out: "t + dias * 86400000000 < 0 \<or> 315537897599999999 < t + dias * 86400000000"
    have dur: "duracao_ciclo (ciclo a) = dias * 86400000000"
      using dd by (simp add: duracao_ciclo_dias)
    show "renovar_assinatura i s = Inl OverflowError"
      using f d out
      by (auto simp: renovar_assinatura_def Let_def datetime_add_def datetime_max_def dur)
  qed
  from p1 p2 p3 p4 show ?thesis by blast
qed

text \<open>
  The theorem at one monthly subscription that ends on day 30, seen from day 28: it is
  selected and alerted once, and its renewal moves its end date and the expiry date of its
  client to day 60; and at the same subscription ending in the last microsecond of year 9999,
  whose renewal raises.
\<close>

theorem C9_amended_witness:
  "find (\<lambda>a. ass_id a = 1) (assinaturas sistema_assinatura) = Some assinatura_exemplo
   \<and> data_fim assinatura_exemplo = Some 2592000000000
   \<and> ciclo assinatura_exemplo = MENSAL
   \<and> fst (verificar_renovacoes 2419200000000 2419200000000 sistema_assinatura) = [assinatura_exemplo]
   \<and> alertas (snd (verificar_renovacoes 2419200000000 2419200000000 sistema_assinatura))
       = [Pagamento_pendente 1]
   \<and> renovar_assinatura 1 sistema_assinatura
       = Inr (True, sistema_vazio\<lparr>
           assinaturas := [assinatura_exemplo\<lparr> data_fim := Some 5184000000000 \<rparr>],
           clientes := [cliente_exemplo\<lparr> cli_data_expiracao := Some 5184000000000 \<rparr>] \<rparr>)
   \<and> find (\<lambda>a. ass_id a = 1) (assinaturas (sistema_vazio\<lparr> assinaturas := [assinatura_9999] \<rparr>))
       = Some assinatura_9999
   \<and> renovar_assinatura 1 (sistema_vazio\<lparr> assinaturas := [assinatura_9999] \<rparr>) = Inl OverflowError"
proof -
  have h1: "find (\<lambda>a. ass_id a = 1) (assinaturas sistema_assinatura) = Some assinatura_exemplo
            \<and> data_fim assinatura_exemplo = Some 2592000000000
            \<and> ciclo assinatura_exemplo = MENSAL"
    by (simp add: sistema_assinatura_def sistema_vazio_def assinatura_exemplo_def)
  have h2: "find (\<lambda>a. ass_id a = 1) (assinaturas (sistema_vazio\<lparr> assinaturas := [assinatura_9999] \<rparr>))
       = Some assinatura_9999
       \<and> data_fim assinatura_9999 = Some 315537897599999999 \<and> ciclo assinatura_9999 = MENSAL"
    by (simp add: sistema_vazio_def assinatura_9999_def assinatura_exemplo_def)
  have v: "assinaturas sistema_assinatura = [assinatura_exemplo] \<and> alertas sistema_assinatura = []
           \<and> clientes sistema_assinatura = [cliente_exemplo]
           \<and> ass_id assinatura_exemplo = 1 \<and> ass_cliente_id assinatura_exemplo = 1
           \<and> cli_id cliente_exemplo = 1
           \<and> ass_status assinatura_exemplo = ''ativa'' \<and> renovacao_automatica assinatura_exemplo"
    by (simp add: sistema_assinatura_def sistema_vazio_def assinatura_exemplo_def
          cliente_exemplo_def)
  have e: "sistema_assinatura\<lparr>
             assinaturas := [assinatura_exemplo\<lparr> data_fim := Some 5184000000000 \<rparr>],
             clientes := [cliente_exemplo\<lparr> cli_data_expiracao := Some 5184000000000 \<rparr>] \<rparr>
         = sistema_vazio\<lparr>
             assinaturas := [assinatura_exemplo\<lparr> data_fim := Some 5184000000000 \<rparr>],
             clientes := [cliente_exemplo\<lparr> cli_data_expiracao := Some 5184000000000 \<rparr>] \<rparr>"
    by (simp add: sistema_assinatura_def)
  show ?thesis
    using h1 h2 v e
      C9_amended [where ?agora1.0 = 2419200000000 and ?agora2.0 = 2419200000000
        and s = sistema_assinatura and i = 1 and a = assinatura_exemplo
        and t = 2592000000000 and dias = 30]
      C9_amended [where ?agora1.0 = 2419200000000 and ?agora2.0 = 2419200000000
        and s = "sistema_vazio\<lparr> assinaturas := [assinatura_9999] \<rparr>" and i = 1
        and a = assinatura_9999 and t = 315537897599999999 and dias = 30]
    by simp
qed

text \<open>
  C9 as stated fails. With a lookahead of seven days, an active subscription with automatic
  renewal that ends in five days lies within the window, and the query, whose window is three
  days, does not select it. And the scheduled sweep, run on day 28 over a subscription that
  ends on day 30, neither requests the alert nor renews: \<open>next(get_db())\<close> raises and the job
  leaves the session as it was.
\<close>

theorem C9_counterexample:
  "ass_status assinatura_5_dias = ''ativa'' \<and> renovacao_automatica assinatura_5_dias
   \<and> data_fim assinatura_5_dias = Some 432000000000
   \<and> (0 :: int) < 432000000000 \<and> 432000000000 \<le> 0 + timedelta_days 7
   \<and> fst (verificar_renovacoes 0 0 (sistema_vazio\<lparr> assinaturas := [assinatura_5_dias] \<rparr>)) = []
   \<and> renovacao_pendente 2419200000000 2419200000000 assinatura_exemplo
   \<and> monitorar_renovacoes_assinaturas 2419200000000 2419200000000 sistema_assinatura
       = sistema_assinatura
   \<and> alertas sistema_assinatura = []
   \<and> data_fim assinatura_exemplo = Some 2592000000000"
  by (simp add: verificar_renovacoes_def renovacao_pendente_def timedelta_days_def
        monitorar_renovacoes_assinaturas_def get_db_def py_next_def
        sistema_assinatura_def sistema_vazio_def assinatura_5_dias_def assinatura_exemplo_def)

section \<open>Blocking a machine\<close>

text \<open>\<open>bloquear_maquina\<close> writes no \<open>Bloqueio\<close> row and requests no alert, on any input.\<close>

lemma bloquear_maquina_sem_registo:
  "bloqueios (snd (bloquear_maquina maquina_id motivo s)) = bloqueios s \<and>
   alertas (snd (bloquear_maquina maquina_id motivo s)) = alertas s"
  by (simp add: bloquear_maquina_def split: option.splits)

text \<open>
  C4 at machine 1, ONLINE, with subscribers 10, 11 and 12: the block sets the status to
  BLOQUEADA and the endpoint broadcasts it, but the table of block records stays empty and no
  alert is requested, whereas \<open>bloquear_licenca\<close> on a licence adds one block record.
\<close>

theorem C4_block_creates_no_record:
  "fst (bloquear_maquina 1 ''teste'' (sistema_maquina maquina_online)) = True
   \<and> map maq_status (maquinas (snd (bloquear_maquina 1 ''teste'' (sistema_maquina maquina_online))))
       = [BLOQUEADA]
   \<and> bloqueios (snd (bloquear_maquina 1 ''teste'' (sistema_maquina maquina_online))) = []
   \<and> alertas (snd (bloquear_maquina 1 ''teste'' (sistema_maquina maquina_online))) = []
   \<and> fst (api_bloquear_maquina falha_11 sem_interferencia 0 1 ''teste''
            (sistema_maquina maquina_online, gestor_exemplo))
       = HTTP_200
   \<and> bloqueios (fst (fst (snd (api_bloquear_maquina falha_11 sem_interferencia 0 1 ''teste''
        (sistema_maquina maquina_online, gestor_exemplo))))) = []
   \<and> snd (snd (api_bloquear_maquina falha_11 sem_interferencia 0 1 ''teste''
        (sistema_maquina maquina_online, gestor_exemplo)))
       = [(10, Msg_bloqueio 1 ''teste'' 0, True), (11, Msg_bloqueio 1 ''teste'' 0, False),
          (12, Msg_bloqueio 1 ''teste'' 0, True)]
   \<and> bloqueios (snd (bloquear_licenca 1 ''teste'' (sistema_licenca licenca_exemplo)))
       = [\<lparr> blq_cliente_id = 1, blq_maquina_id = None, blq_motivo = ''teste'',
            blq_tipo = ''licenca'', blq_severidade = ''alta'', data_desbloqueio = None \<rparr>]"
  by (simp add: bloquear_maquina_def api_bloquear_maquina_def broadcast_bloqueio_def
        transmitir_def tamanho_def aplica_evento_def descartar_def sem_interferencia_def
        bloquear_licenca_def sistema_maquina_def sistema_licenca_def
        sistema_vazio_def maquina_online_def maquina_bloqueada_def licenca_exemplo_def
        gestor_exemplo_def falha_11_def)

end
